theory Spec2Isabelle
  imports Complex_Main "HOL-Library.Multiset"
begin

section \<open>Python values used by backend/app.py\<close>

text \<open>
  Exceptions are values. Each constructor stands for one raise site of app.py or for an
  exception coming out of a library call that app.py wraps in \<open>try\<close>:
  \<^item> \<open>CsvNotFound\<close>: \<open>FileNotFoundError\<close> of \<open>_load_csv_filtered\<close> (line 194);
  \<^item> \<open>CsvUnreadable\<close>: whatever \<open>pd.read_csv\<close> raises on a file it cannot parse;
  \<^item> \<open>NoImageColumn\<close>: \<open>ValueError\<close> of \<open>_detect_image_column\<close> (line 186);
  \<^item> \<open>NoImagesIndexed\<close>: \<open>RuntimeError\<close> of \<open>_build_index_from_csv\<close> (line 323);
  \<^item> \<open>ShapeMismatch\<close>: \<open>ValueError\<close> of \<open>np.vstack\<close> or of the matrix product;
  \<^item> \<open>IndexError\<close>, \<open>TypeError\<close>: Python's own;
  \<^item> \<open>HTTPError st\<close>: \<open>raise_for_status\<close> on status \<open>st\<close>;
  \<^item> \<open>EmptyContent\<close>, \<open>EmptyContentFallback\<close>: lines 145 and 165;
  \<^item> \<open>OSError n\<close>: what \<open>np.save\<close> or \<open>write_text\<close> raises when a file cannot be
    written (lines 326-327), tagged by a number;
  \<^item> \<open>Ext n\<close>: any other exception of an external collaborator (network, decoder,
    model), tagged by a number.
\<close>

datatype exn =
    CsvNotFound
  | CsvUnreadable
  | NoImageColumn
  | NoImagesIndexed
  | ShapeMismatch
  | IndexError
  | TypeError
  | HTTPError nat
  | EmptyContent
  | EmptyContentFallback
  | OSError nat
  | Ext nat

subsection \<open>Strings\<close>

text \<open>
  \<open>str.strip()\<close> removes the characters for which \<open>str.isspace()\<close> holds; on ASCII these
  are codes 9 to 13, 28 to 31 and 32. \<open>str.lower()\<close> is modelled on ASCII letters.
\<close>

definition is_space :: "char \<Rightarrow> bool" where
  "is_space c = (of_char c \<in> {9, 10, 11, 12, 13, 28, 29, 30, 31, 32 :: nat})"

definition strip :: "string \<Rightarrow> string" where
  "strip s = rev (dropWhile is_space (rev (dropWhile is_space s)))"

definition lower_char :: "char \<Rightarrow> char" where
  "lower_char c =
     (case map_of (zip ''ABCDEFGHIJKLMNOPQRSTUVWXYZ'' ''abcdefghijklmnopqrstuvwxyz'') c of
        Some l \<Rightarrow> l
      | None \<Rightarrow> c)"

definition lower :: "string \<Rightarrow> string" where
  "lower s = map lower_char s"

text \<open>\<open>k in s\<close> on strings: \<open>k\<close> occurs in \<open>s\<close> as a contiguous block.\<close>

fun contains :: "string \<Rightarrow> string \<Rightarrow> bool" where
  "contains [] k = (k = [])"
| "contains (c # s) k = (take (length k) (c # s) = k \<or> contains s k)"

subsection \<open>Data frames\<close>

text \<open>
  A row maps a column name to its cell; a frame keeps the ordered column names and the
  ordered rows. \<open>read_csv(dtype=str)\<close> followed by \<open>fillna("")\<close> makes every cell a
  string, a missing one the empty string: \<open>cell\<close> reads a row that way.
\<close>

type_synonym row = "string \<rightharpoonup> string"

record dataframe =
  columns :: "string list"
  rows :: "row list"

definition cell :: "row \<Rightarrow> string \<Rightarrow> string" where
  "cell r c = (case r c of Some v \<Rightarrow> v | None \<Rightarrow> [])"

subsection \<open>Vectors\<close>

definition dot :: "real list \<Rightarrow> real list \<Rightarrow> real" where
  "dot u v = sum_list (map2 (*) u v)"

definition l2norm :: "real list \<Rightarrow> real" where
  "l2norm v = sqrt (sum_list (map (\<lambda>x. x * x) v))"

definition eps :: real where
  "eps = 1 / 10 ^ 10"

text \<open>
  Line 278 is \<open>v = v / (np.linalg.norm(v) + 1e-10)\<close> on a float32 array: every operation
  rounds, so its result is taken from the environment (\<open>normalize_f32\<close> below).
  \<open>normalize\<close> is the exact quotient that it approximates, and \<open>l2norm\<close> the exact norm,
  by which a stored vector is measured.
\<close>

definition normalize :: "real list \<Rightarrow> real list" where
  "normalize v = map (\<lambda>x. x / (l2norm v + eps)) v"

text \<open>
  \<open>embeddings @ qvec\<close> for an N x D matrix (a list of rows) and a vector: numpy raises
  \<open>ValueError\<close> unless the vector has length D.
\<close>

definition matvec :: "real list list \<Rightarrow> real list \<Rightarrow> exn + real list" where
  "matvec M q =
     (if list_all (\<lambda>r. length r = length q) M then Inr (map (\<lambda>r. dot r q) M)
      else Inl ShapeMismatch)"

section \<open>The environment: external collaborators\<close>

text \<open>
  What app.py calls but does not define is a parameter:
  \<^item> \<open>open_image\<close>: \<open>_open_image_from_url_or_path\<close> seen from its callers (network,
    file system and decoder decide its outcome);
  \<^item> \<open>decode_upload\<close>: \<open>Image.open\<close> and colour conversion of an uploaded file's bytes;
  \<^item> \<open>get_image_features\<close>: the CLIP model's \<open>get_image_features\<close>;
  \<^item> \<open>normalize_f32\<close>: line 278 as float32 arithmetic computes it;
  \<^item> \<open>argsort\<close>: \<open>np.argsort\<close> with its default sort kind;
  \<^item> \<open>parse_float\<close>: Python's \<open>float(str)\<close>, \<open>None\<close> where it raises;
  \<^item> \<open>stem\<close>: \<open>Path(x).stem\<close>;
  \<^item> \<open>np_save\<close>, \<open>write_text\<close>: how the writes of lines 326 and 327 end. A write
    either completes, or raises leaving the file as it was (the path cannot be opened),
    or raises after the file has been truncated.
\<close>

datatype write_outcome = Written | NotWritten nat | Damaged nat

record ('img, 'bytes) env =
  open_image :: "string \<Rightarrow> exn + 'img"
  decode_upload :: "'bytes \<Rightarrow> exn + 'img"
  get_image_features :: "'img \<Rightarrow> exn + real list"
  argsort :: "real list \<Rightarrow> nat list"
  parse_float :: "string \<Rightarrow> real option"
  stem :: "string \<Rightarrow> string"
  normalize_f32 :: "real list \<Rightarrow> real list"
  np_save :: write_outcome
  write_text :: write_outcome

text \<open>
  The documented contract of \<open>np.argsort(xs)\<close>: a permutation of the indices along which
  \<open>xs\<close> is ascending. The default kind (quicksort) promises no order among equal keys.
\<close>

definition is_argsort :: "real list \<Rightarrow> nat list \<Rightarrow> bool" where
  "is_argsort xs order =
     (mset order = mset [0..<length xs] \<and> sorted (map (\<lambda>i. xs ! i) order))"

text \<open>A sort that meets the contract and keeps equal keys in index order.\<close>

definition stable_argsort :: "real list \<Rightarrow> nat list" where
  "stable_argsort xs = sort_key (\<lambda>i. xs ! i) [0..<length xs]"

text \<open>Lines 274-279, \<open>_img_to_vec\<close>: extract, then normalise.\<close>

definition img_to_vec :: "('img, 'bytes) env \<Rightarrow> 'img \<Rightarrow> exn + real list" where
  "img_to_vec e img =
     (case get_image_features e img of
        Inl x \<Rightarrow> Inl x
      | Inr v \<Rightarrow> Inr (normalize_f32 e v))"

section \<open>Process state\<close>

text \<open>
  The module globals \<open>df\<close>, \<open>embeddings\<close>, \<open>ids\<close> (lines 79-81) and the three files under
  \<open>data/\<close>. A file is \<open>None\<close> when it does not exist.
\<close>

datatype csv_content = CsvBad | CsvTable dataframe

datatype npy_content = NpyBad | NpyArray "real list list"

text \<open>
  \<open>ids.json\<close> as lines 354-356 use it: \<open>json.loads\<close> fails (\<open>JsonBad\<close>), or gives a value
  that cannot be iterated (a number, a boolean, null), or gives an iterable;
  \<open>JsonItems xs\<close> holds \<open>str(x)\<close> of each item in order.
\<close>

datatype json_content = JsonBad | JsonNotIterable | JsonItems "string list"

record state =
  df :: "dataframe option"
  embeddings :: "real list list option"
  ids :: "string list"
  csv_file :: "csv_content option"
  index_file :: "npy_content option"
  ids_file :: "json_content option"

section \<open>Search (lines 395-455)\<close>

datatype price = PriceNumber real | PriceText string

record payload =
  p_id :: string
  p_name :: string
  p_image_url :: string
  p_price :: "price option"
  p_brand :: "string option"
  p_description :: "string option"
  p_score :: "real option"

text \<open>\<open>a or b\<close> on optional strings: the first truthy operand, else the last.\<close>

definition truthy :: "string option \<Rightarrow> bool" where
  "truthy x = (case x of None \<Rightarrow> False | Some s \<Rightarrow> s \<noteq> [])"

definition row_to_payload :: "('img, 'bytes) env \<Rightarrow> row \<Rightarrow> real option \<Rightarrow> payload" where
  "row_to_payload e r score =
     \<lparr> p_id = cell r ''id'',
       p_name = (if truthy (r ''title'') then cell r ''title''
                 else if truthy (r ''name'') then cell r ''name'' else []),
       p_image_url = cell r ''image_url'',
       p_price = (case r ''price'' of
                    None \<Rightarrow> None
                  | Some v \<Rightarrow> if strip v = [] then None
                             else (case parse_float e v of
                                     Some x \<Rightarrow> Some (PriceNumber x)
                                   | None \<Rightarrow> Some (PriceText v))),
       p_brand = r ''brand'',
       p_description = r ''description'',
       p_score = score \<rparr>"

datatype detail = IndexNotBuilt | MinSimilarityRange | FailedToLoadQuery exn | ProvideImage

datatype http_error = HTTPException nat detail | Unhandled exn

datatype query_meta = FromFile string | FromUrlOrPath string

record response =
  query :: query_meta
  count :: nat
  items :: "payload list"

text \<open>
  Lines 443-453. \<open>sims[idx]\<close> and \<open>ids[idx]\<close> raise \<open>IndexError\<close> out of range (the indices
  of \<open>argsort\<close> are never negative). \<open>continue\<close> skips the truncation test of line 452,
  which is otherwise reached whether or not the row was found.
\<close>

fun search_loop ::
  "('img, 'bytes) env \<Rightarrow> dataframe \<Rightarrow> string list \<Rightarrow> real list \<Rightarrow> real \<Rightarrow> int \<Rightarrow>
   nat list \<Rightarrow> payload list \<Rightarrow> exn + payload list" where
  "search_loop e d idl sims ms top_k [] results = Inr results"
| "search_loop e d idl sims ms top_k (idx # order) results =
     (if length sims \<le> idx then Inl IndexError
      else if sims ! idx < ms then search_loop e d idl sims ms top_k order results
      else if length idl \<le> idx then Inl IndexError
      else
        let found = filter (\<lambda>r. cell r ''id'' = idl ! idx) (rows d);
            results' = (case found of
                          [] \<Rightarrow> results
                        | r # _ \<Rightarrow> results @ [row_to_payload e r (Some (sims ! idx))])
        in if top_k \<le> int (length results') then Inr results'
           else search_loop e d idl sims ms top_k order results')"

text \<open>Lines 409-435: the query image comes from the upload, else from \<open>image_url\<close>.\<close>

definition load_query ::
  "('img, 'bytes) env \<Rightarrow> string option \<Rightarrow> (string \<times> 'bytes) option \<Rightarrow>
   http_error + ('img \<times> query_meta)" where
  "load_query e image_url file =
     (case (case file of Some (fname, content) \<Rightarrow> if fname \<noteq> [] then Some (fname, content) else None
                       | None \<Rightarrow> None) of
        Some (fname, content) \<Rightarrow>
          (case decode_upload e content of
             Inl x \<Rightarrow> Inl (HTTPException 400 (FailedToLoadQuery x))
           | Inr img \<Rightarrow> Inr (img, FromFile fname))
      | None \<Rightarrow>
          (case image_url of
             Some u \<Rightarrow>
               if u \<noteq> [] then
                 (case open_image e u of
                    Inl x \<Rightarrow> Inl (HTTPException 400 (FailedToLoadQuery x))
                  | Inr img \<Rightarrow> Inr (img, FromUrlOrPath u))
               else Inl (HTTPException 422 ProvideImage)
           | None \<Rightarrow> Inl (HTTPException 422 ProvideImage)))"

definition index_ready :: "state \<Rightarrow> bool" where
  "index_ready s =
     (case embeddings s of
        None \<Rightarrow> False
      | Some M \<Rightarrow> (case df s of None \<Rightarrow> False | Some d \<Rightarrow> M \<noteq> []))"

definition search ::
  "('img, 'bytes) env \<Rightarrow> state \<Rightarrow> string option \<Rightarrow> int \<Rightarrow> real \<Rightarrow> (string \<times> 'bytes) option \<Rightarrow>
   http_error + response" where
  "search e s image_url top_k min_similarity file =
     (if \<not> index_ready s then Inl (HTTPException 400 IndexNotBuilt)
      else if \<not> (0 \<le> min_similarity \<and> min_similarity \<le> 1)
        then Inl (HTTPException 422 MinSimilarityRange)
      else
        (case load_query e image_url file of
           Inl h \<Rightarrow> Inl h
         | Inr (img, meta) \<Rightarrow>
             (case img_to_vec e img of
                Inl x \<Rightarrow> Inl (Unhandled x)
              | Inr qvec \<Rightarrow>
                  (case matvec (the (embeddings s)) qvec of
                     Inl x \<Rightarrow> Inl (Unhandled x)
                   | Inr sims \<Rightarrow>
                       (case search_loop e (the (df s)) (ids s) sims min_similarity top_k
                               (argsort e (map uminus sims)) [] of
                          Inl x \<Rightarrow> Inl (Unhandled x)
                        | Inr results \<Rightarrow>
                            Inr \<lparr> query = meta, count = length results, items = results \<rparr>)))))"

text \<open>
  The ranking the loop is compared with: the candidates along \<open>order\<close> that reach
  \<open>min_similarity\<close> and whose id is found in the table, each with the first row of that
  id.
\<close>

definition resolve ::
  "('img, 'bytes) env \<Rightarrow> dataframe \<Rightarrow> string list \<Rightarrow> real list \<Rightarrow> nat \<Rightarrow> payload option" where
  "resolve e d idl sims i =
     (case filter (\<lambda>r. cell r ''id'' = idl ! i) (rows d) of
        [] \<Rightarrow> None
      | r # _ \<Rightarrow> Some (row_to_payload e r (Some (sims ! i))))"

definition ranked ::
  "('img, 'bytes) env \<Rightarrow> dataframe \<Rightarrow> string list \<Rightarrow> real list \<Rightarrow> real \<Rightarrow> nat list \<Rightarrow>
   payload list" where
  "ranked e d idl sims ms order =
     List.map_filter (resolve e d idl sims) (filter (\<lambda>i. \<not> sims ! i < ms) order)"

section \<open>File name stems\<close>

text \<open>
  \<open>Path(x).stem\<close> belongs to the standard library; the functions below take it from the
  environment. \<open>posix_stem\<close> follows pathlib on POSIX (the last component that is neither
  empty nor \<open>.\<close>, cut before its last dot unless that dot is its first or last
  character) and instantiates the environment in the examples.
\<close>

fun split_on :: "char \<Rightarrow> string \<Rightarrow> string list" where
  "split_on sep [] = [[]]"
| "split_on sep (c # s) =
     (if c = sep then [] # split_on sep s
      else (case split_on sep s of [] \<Rightarrow> [[c]] | p # ps \<Rightarrow> (c # p) # ps))"

definition path_name :: "string \<Rightarrow> string" where
  "path_name s =
     (case filter (\<lambda>p. p \<noteq> [] \<and> p \<noteq> ''.'') (split_on CHR ''/'' s) of
        [] \<Rightarrow> []
      | p # ps \<Rightarrow> last (p # ps))"

definition posix_stem :: "string \<Rightarrow> string" where
  "posix_stem s =
     (let name = path_name s;
          k = length (takeWhile (\<lambda>c. c \<noteq> CHR ''.'') (rev name))
      in if k < length name \<and> 0 < length name - 1 - k \<and> 0 < k
         then take (length name - 1 - k) name else name)"

section \<open>The dataset normalizer (lines 179-239)\<close>

definition series :: "dataframe \<Rightarrow> string \<Rightarrow> string list" where
  "series d c = map (\<lambda>r. cell r c) (rows d)"

text \<open>\<open>fillna("")\<close>: every cell of every column becomes a string.\<close>

definition fillna :: "dataframe \<Rightarrow> dataframe" where
  "fillna d =
     d \<lparr> rows := map (\<lambda>r c. if c \<in> set (columns d) then Some (cell r c) else None) (rows d) \<rparr>"

text \<open>\<open>dframe[c] = values\<close>: replaces the column, or appends it as the last one.\<close>

definition set_column :: "string \<Rightarrow> string list \<Rightarrow> dataframe \<Rightarrow> dataframe" where
  "set_column c vs d =
     \<lparr> columns = (if c \<in> set (columns d) then columns d else columns d @ [c]),
       rows = map2 (\<lambda>r v. r(c \<mapsto> v)) (rows d) vs \<rparr>"

text \<open>\<open>dframe.loc[mask, c] = values\<close>: only the rows under the mask change.\<close>

definition assign_where :: "bool list \<Rightarrow> string \<Rightarrow> string list \<Rightarrow> dataframe \<Rightarrow> dataframe" where
  "assign_where msk c vs d =
     d \<lparr> rows := map2 (\<lambda>m (r, v). if m then r(c \<mapsto> v) else r) msk (zip (rows d) vs) \<rparr>"

definition rename_column :: "string \<Rightarrow> string \<Rightarrow> dataframe \<Rightarrow> dataframe" where
  "rename_column old new d =
     \<lparr> columns = map (\<lambda>c. if c = old then new else c) (columns d),
       rows = map (\<lambda>r c. if c = new then r old else if c = old then None else r c) (rows d) \<rparr>"

definition keep_rows :: "(row \<Rightarrow> bool) \<Rightarrow> dataframe \<Rightarrow> dataframe" where
  "keep_rows P d = d \<lparr> rows := filter P (rows d) \<rparr>"

text \<open>Lines 179-186.\<close>

definition detect_image_column :: "dataframe \<Rightarrow> exn + string" where
  "detect_image_column d =
     (let candidates =
            filter (\<lambda>c. list_ex (\<lambda>k. contains (lower c) k)
                             [''image'', ''img'', ''photo'', ''picture'', ''url''])
                   (columns d)
      in case filter (\<lambda>pref. pref \<in> set (columns d))
                [''image_url'', ''image'', ''url'', ''img'', ''imageUrl''] of
           pref # _ \<Rightarrow> Inr pref
         | [] \<Rightarrow> (case candidates of c # _ \<Rightarrow> Inr c | [] \<Rightarrow> Inl NoImageColumn))"

text \<open>
  Lines 199-209: the image column is renamed to \<open>image_url\<close>, stripped, and the rows
  without an image are dropped.
\<close>

definition with_images :: "string \<Rightarrow> dataframe \<Rightarrow> dataframe" where
  "with_images img_col d =
     (let d1 = (if img_col \<noteq> ''image_url'' then rename_column img_col ''image_url'' d else d);
          d2 = set_column ''image_url'' (map strip (series d1 ''image_url'')) d1
      in keep_rows (\<lambda>r. cell r ''image_url'' \<noteq> []) d2)"

text \<open>Lines 218, 226, 231: \<open>Path(str(x)).stem if str(x).strip() else ""\<close>.\<close>

definition stem_or_empty :: "('img, 'bytes) env \<Rightarrow> string \<Rightarrow> string" where
  "stem_or_empty e x = (if strip x \<noteq> [] then stem e x else [])"

text \<open>Lines 211-231: the \<open>id\<close> column.\<close>

definition with_ids :: "('img, 'bytes) env \<Rightarrow> dataframe \<Rightarrow> dataframe" where
  "with_ids e d =
     (if ''id'' \<notin> set (columns d) then
        (if ''sku'' \<in> set (columns d) \<and> list_ex (\<lambda>v. v \<noteq> []) (map strip (series d ''sku''))
         then set_column ''id'' (map strip (series d ''sku'')) d
         else set_column ''id'' (map (stem_or_empty e) (series d ''image_url'')) d)
      else
        (let id_series = map strip (series d ''id'');
             null_mask = map (\<lambda>v. lower v \<in> set [[], ''nan'', ''none'', ''null'']) id_series
         in if list_all (\<lambda>m. m) null_mask
            then set_column ''id'' (map (stem_or_empty e) (series d ''image_url'')) d
            else
              (let d' = set_column ''id'' id_series d
               in if list_ex (\<lambda>m. m) null_mask
                  then assign_where null_mask ''id''
                         (map (stem_or_empty e) (series d' ''image_url'')) d'
                  else d')))"

text \<open>Lines 188-239, \<open>_load_csv_filtered\<close>, on the content of \<open>products.csv\<close>.\<close>

definition load_csv_filtered ::
  "('img, 'bytes) env \<Rightarrow> csv_content option \<Rightarrow> exn + dataframe" where
  "load_csv_filtered e f =
     (case f of
        None \<Rightarrow> Inl CsvNotFound
      | Some CsvBad \<Rightarrow> Inl CsvUnreadable
      | Some (CsvTable raw) \<Rightarrow>
          (let dframe = fillna raw
           in case detect_image_column dframe of
                Inl x \<Rightarrow> Inl x
              | Inr img_col \<Rightarrow>
                  (let d4 = with_ids e (with_images img_col dframe);
                       d5 = set_column ''id'' (map strip (series d4 ''id'')) d4
                   in Inr (keep_rows (\<lambda>r. cell r ''id'' \<noteq> [] \<and> cell r ''image_url'' \<noteq> []) d5))))"




text \<open>What a caller reads off the result: the (id, image source) pairs in row order.\<close>

definition id_image_pairs :: "exn + dataframe \<Rightarrow> (string \<times> string) list option" where
  "id_image_pairs res =
     (case res of
        Inl _ \<Rightarrow> None
      | Inr d \<Rightarrow> Some (map (\<lambda>r. (cell r ''id'', cell r ''image_url'')) (rows d)))"


section \<open>The index builder (lines 300-334)\<close>

text \<open>
  Lines 312-320. One record: open the image, embed it; any exception of either step is
  caught, the record is counted as skipped and the loop goes on.
\<close>

fun build_loop ::
  "('img, 'bytes) env \<Rightarrow> row list \<Rightarrow> real list list \<Rightarrow> string list \<Rightarrow> nat \<Rightarrow>
   real list list \<times> string list \<times> nat" where
  "build_loop e [] vecs ids_local skipped = (vecs, ids_local, skipped)"
| "build_loop e (r # rs) vecs ids_local skipped =
     (case open_image e (cell r ''image_url'') of
        Inl _ \<Rightarrow> build_loop e rs vecs ids_local (Suc skipped)
      | Inr img \<Rightarrow>
          (case img_to_vec e img of
             Inl _ \<Rightarrow> build_loop e rs vecs ids_local (Suc skipped)
           | Inr v \<Rightarrow> build_loop e rs (vecs @ [v]) (ids_local @ [cell r ''id'']) skipped))"

text \<open>\<open>np.vstack\<close>: the rows must have one length, and there must be one at least.\<close>

definition vstack :: "real list list \<Rightarrow> exn + real list list" where
  "vstack vecs =
     (case vecs of
        [] \<Rightarrow> Inl ShapeMismatch
      | v # vs \<Rightarrow> if list_all (\<lambda>u. length u = length v) vs then Inr (v # vs)
                  else Inl ShapeMismatch)"

text \<open>
  Lines 329-331 are three assignments, in this order. \<open>state_after n\<close> is the process
  state once the first \<open>n\<close> of them have run; \<open>view\<close> is what a reader of the three
  globals finds.
\<close>

datatype global_name = G_df | G_embeddings | G_ids

definition assign_global ::
  "dataframe \<times> real list list \<times> string list \<Rightarrow> global_name \<Rightarrow> state \<Rightarrow> state" where
  "assign_global t g s =
     (case t of (dframe, embeddings_arr, ids_local) \<Rightarrow>
        (case g of
           G_df \<Rightarrow> s \<lparr> df := Some dframe \<rparr>
         | G_embeddings \<Rightarrow> s \<lparr> embeddings := Some embeddings_arr \<rparr>
         | G_ids \<Rightarrow> s \<lparr> ids := ids_local \<rparr>))"

definition publish_sequence :: "global_name list" where
  "publish_sequence = [G_df, G_embeddings, G_ids]"

definition state_after ::
  "nat \<Rightarrow> dataframe \<times> real list list \<times> string list \<Rightarrow> state \<Rightarrow> state" where
  "state_after n t s = foldl (\<lambda>s' g. assign_global t g s') s (take n publish_sequence)"

definition publish :: "dataframe \<times> real list list \<times> string list \<Rightarrow> state \<Rightarrow> state" where
  "publish t s = state_after (length publish_sequence) t s"

definition view :: "state \<Rightarrow> dataframe option \<times> real list list option \<times> string list" where
  "view s = (df s, embeddings s, ids s)"

record info =
  info_count :: nat
  info_skipped :: nat

text \<open>
  Lines 300-334, \<open>_build_index_from_csv\<close>. The catalog load, the empty pass and
  \<open>np.vstack\<close> raise before anything is written. Then \<open>np.save\<close> writes the matrix file
  (line 326), \<open>write_text\<close> the ids file (line 327), and the three globals are assigned
  (lines 329-331). A write that raises ends the build there: what was written before it
  stays written.
\<close>

definition build_index_from_csv ::
  "('img, 'bytes) env \<Rightarrow> state \<Rightarrow> (exn + info) \<times> state" where
  "build_index_from_csv e s =
     (case load_csv_filtered e (csv_file s) of
        Inl x \<Rightarrow> (Inl x, s)
      | Inr dframe \<Rightarrow>
          (case build_loop e (rows dframe) [] [] 0 of
             (vecs, ids_local, skipped) \<Rightarrow>
               if vecs = [] then (Inl NoImagesIndexed, s)
               else
                 (case vstack vecs of
                    Inl x \<Rightarrow> (Inl x, s)
                  | Inr embeddings_arr \<Rightarrow>
                      (case np_save e of
                         NotWritten n \<Rightarrow> (Inl (OSError n), s)
                       | Damaged n \<Rightarrow> (Inl (OSError n), s \<lparr> index_file := Some NpyBad \<rparr>)
                       | Written \<Rightarrow>
                           (let s1 = s \<lparr> index_file := Some (NpyArray embeddings_arr) \<rparr>
                            in case write_text e of
                                 NotWritten n \<Rightarrow> (Inl (OSError n), s1)
                               | Damaged n \<Rightarrow>
                                   (Inl (OSError n), s1 \<lparr> ids_file := Some JsonBad \<rparr>)
                               | Written \<Rightarrow>
                                   (let s2 = s1 \<lparr> ids_file := Some (JsonItems ids_local) \<rparr>;
                                        s3 = publish (dframe, embeddings_arr, ids_local) s2
                                    in (Inr \<lparr> info_count = length (ids s3),
                                              info_skipped = skipped \<rparr>,
                                        s3)))))))"

text \<open>
  Lines 339-369, \<open>on_startup\<close>. The table is loaded best-effort; if both index files exist
  they are read and assigned (\<open>embeddings\<close> at line 355, before the ids are converted at
  line 356); any exception there, or a missing file, falls through to a build whose
  failure is only logged.
\<close>

definition on_startup :: "('img, 'bytes) env \<Rightarrow> state \<Rightarrow> state" where
  "on_startup e s =
     (let s0 = s \<lparr> df := (case load_csv_filtered e (csv_file s) of
                            Inl _ \<Rightarrow> None
                          | Inr d \<Rightarrow> Some d) \<rparr>
      in case (index_file s0, ids_file s0) of
           (Some (NpyArray embeddings_loaded), Some (JsonItems ids_loaded)) \<Rightarrow>
             s0 \<lparr> embeddings := Some embeddings_loaded, ids := ids_loaded \<rparr>
         | (Some (NpyArray embeddings_loaded), Some JsonNotIterable) \<Rightarrow>
             snd (build_index_from_csv e (s0 \<lparr> embeddings := Some embeddings_loaded \<rparr>))
         | _ \<Rightarrow> snd (build_index_from_csv e s0))"

text \<open>The vector a record contributes, if its three steps succeed.\<close>

definition record_vector :: "('img, 'bytes) env \<Rightarrow> row \<Rightarrow> real list option" where
  "record_vector e r =
     (case open_image e (cell r ''image_url'') of
        Inl _ \<Rightarrow> None
      | Inr img \<Rightarrow> (case img_to_vec e img of Inl _ \<Rightarrow> None | Inr v \<Rightarrow> Some v))"

section \<open>Fetching remote image bytes (lines 86-174)\<close>

type_synonym headers = "(string \<times> string) list"

definition header_candidates :: "headers list" where
  "header_candidates =
     [[(''User-Agent'',
        ''Mozilla/5.0 (Windows NT 10.0; Win64; x64) AppleWebKit/537.36 (KHTML, like Gecko) Chrome/120.0 Safari/537.36''),
       (''Accept'',
        ''text/html,application/xhtml+xml,application/xml;q=0.9,image/webp,image/apng,*/*;q=0.8''),
       (''Accept-Language'', ''en-US,en;q=0.9''),
       (''Connection'', ''keep-alive'')],
      [(''User-Agent'', ''Mozilla/5.0''),
       (''Referer'', ''https://www.google.com/''),
       (''Accept'', ''*/*'')],
      [(''User-Agent'', ''curl/7.64.1''),
       (''Accept'', ''*/*'')]]"

definition max_attempts :: nat where
  "max_attempts = 3"

text \<open>
  What a request meets: an exception of the transport, or a status and the streamed
  chunks. The network is a parameter: \<open>net a i\<close> answers the request of attempt \<open>a\<close> with
  profile number \<open>i\<close> (each is made at most once); \<open>fallback\<close> answers \<open>urlopen\<close>;
  \<open>netloc\<close> is \<open>urlparse(url).netloc\<close>, which can raise.
\<close>

datatype http_response = Raised exn | Status nat "string list"

datatype event = Get nat headers | Sleep real | UrlOpen headers

text \<open>Lines 126-132: a profile without \<open>Referer\<close> gets one from a non-empty host.\<close>

definition with_referer :: "exn + string \<Rightarrow> headers \<Rightarrow> headers" where
  "with_referer host hs =
     (case host of
        Inl _ \<Rightarrow> hs
      | Inr h \<Rightarrow> if h \<noteq> [] \<and> ''Referer'' \<notin> fst ` set hs
                 then hs @ [(''Referer'', ''https://'' @ h @ ''/'')] else hs)"

text \<open>Lines 136-146: the status check, the non-empty chunks joined, the emptiness check.\<close>

definition read_response :: "http_response \<Rightarrow> exn + string" where
  "read_response r =
     (case r of
        Raised x \<Rightarrow> Inl x
      | Status st chunks \<Rightarrow>
          if 400 \<le> st \<and> st < 600 then Inl (HTTPError st)
          else (let content = concat (filter (\<lambda>c. c \<noteq> []) chunks)
                in if content = [] then Inl EmptyContent else Inr content))"

text \<open>Lines 124-149: the profiles of one attempt, from profile number \<open>i\<close> on.\<close>

fun try_profiles ::
  "(nat \<Rightarrow> http_response) \<Rightarrow> exn + string \<Rightarrow> nat \<Rightarrow> nat \<Rightarrow> headers list \<Rightarrow>
   exn option \<Rightarrow> event list \<Rightarrow> string option \<times> exn option \<times> event list" where
  "try_profiles answer host attempt i [] last_exc trace = (None, last_exc, trace)"
| "try_profiles answer host attempt i (hs # rest) last_exc trace =
     (let trace' = trace @ [Get attempt (with_referer host hs)]
      in case read_response (answer i) of
           Inr content \<Rightarrow> (Some content, last_exc, trace')
         | Inl x \<Rightarrow> try_profiles answer host attempt (Suc i) rest (Some x) trace')"

text \<open>Lines 123-154: the attempts, each followed by its sleep when no profile succeeded.\<close>

fun attempts ::
  "(nat \<Rightarrow> nat \<Rightarrow> http_response) \<Rightarrow> exn + string \<Rightarrow> nat list \<Rightarrow>
   exn option \<Rightarrow> event list \<Rightarrow> string option \<times> exn option \<times> event list" where
  "attempts net host [] last_exc trace = (None, last_exc, trace)"
| "attempts net host (attempt # rest) last_exc trace =
     (case try_profiles (net attempt) host attempt 0 header_candidates last_exc trace of
        (Some content, last_exc', trace') \<Rightarrow> (Some content, last_exc', trace')
      | (None, last_exc', trace') \<Rightarrow>
          attempts net host rest last_exc'
            (trace' @ [Sleep ((1 / 2) * 2 ^ (attempt - 1))]))"

text \<open>
  Lines 86-174, \<open>_fetch_image_bytes_with_headers\<close>: the result and the requests and sleeps
  made, in order.
\<close>

definition fetch_image_bytes_with_headers ::
  "(nat \<Rightarrow> nat \<Rightarrow> http_response) \<Rightarrow> (exn + string) \<Rightarrow> (exn + string) \<Rightarrow>
   (exn + string) \<times> event list" where
  "fetch_image_bytes_with_headers net fallback host =
     (case attempts net host [1..<max_attempts + 1] None [] of
        (Some content, _, trace) \<Rightarrow> (Inr content, trace)
      | (None, last_exc, trace) \<Rightarrow>
          (let raise_last = (\<lambda>x. case last_exc of Some l \<Rightarrow> Inl l | None \<Rightarrow> Inl x)
           in case host of
                Inl x \<Rightarrow> (raise_last x, trace)
              | Inr h \<Rightarrow>
                  (let trace' = trace @ [UrlOpen [(''User-Agent'',
                                                   ''Mozilla/5.0 (Windows NT 10.0; Win64; x64)''),
                                                  (''Referer'', ''https://'' @ h @ ''/'')]]
                   in case fallback of
                        Inl x \<Rightarrow> (raise_last x, trace')
                      | Inr content \<Rightarrow>
                          if content = [] then (raise_last EmptyContentFallback, trace')
                          else (Inr content, trace'))))"

text \<open>
  The trace the protocol prescribes: the first \<open>n\<close> profiles of an attempt, the delay
  \<open>base_delay * 2^(attempt-1)\<close> with \<open>base_delay = 0.5\<close>, and the first \<open>n\<close> attempts when
  every profile fails in each.
\<close>

definition gets :: "exn + string \<Rightarrow> nat \<Rightarrow> nat \<Rightarrow> event list" where
  "gets host attempt n =
     map (\<lambda>hs. Get attempt (with_referer host hs)) (take n header_candidates)"

definition backoff :: "nat \<Rightarrow> real" where
  "backoff attempt = (1 / 2) * 2 ^ (attempt - 1)"

definition failed_attempts :: "exn + string \<Rightarrow> nat \<Rightarrow> event list" where
  "failed_attempts host n =
     concat (map (\<lambda>a. gets host a (length header_candidates) @ [Sleep (backoff a)])
                 [1..<Suc n])"

definition urlopen_headers :: "string \<Rightarrow> headers" where
  "urlopen_headers h =
     [(''User-Agent'', ''Mozilla/5.0 (Windows NT 10.0; Win64; x64)''),
      (''Referer'', ''https://'' @ h @ ''/'')]"

text \<open>
  When a request counts as failed, in terms of what came back: the transport raised, or
  the status lies in 400-599, or the body, all chunks joined, is empty; with the
  exception that \<open>last_exc\<close> then holds. Every other response is a success, whose body
  is the chunks joined.
\<close>

definition response_error :: "http_response \<Rightarrow> exn option" where
  "response_error r =
     (case r of
        Raised x \<Rightarrow> Some x
      | Status st chunks \<Rightarrow>
          if 400 \<le> st \<and> st < 600 then Some (HTTPError st)
          else if concat chunks = [] then Some EmptyContent
          else None)"

text \<open>Every profile of attempt \<open>a\<close> fails.\<close>

definition attempt_fails :: "(nat \<Rightarrow> nat \<Rightarrow> http_response) \<Rightarrow> nat \<Rightarrow> bool" where
  "attempt_fails net a = (\<forall>j<length header_candidates. response_error (net a j) \<noteq> None)"

section \<open>A small catalog, used to run the definitions\<close>

text \<open>
  Images are stood for by their feature vectors, of dimension 2. \<open>a.png\<close> and \<open>b.png\<close>
  have the same features, \<open>c.png\<close> is orthogonal to them, any other source cannot be
  opened. \<open>demo_env\<close> normalises exactly, sorts stably and writes without fault.
\<close>

definition catalog3 :: dataframe where
  "catalog3 =
     \<lparr> columns = [''id'', ''image_url''],
       rows = [[''id'' \<mapsto> ''A'', ''image_url'' \<mapsto> ''a.png''],
               [''id'' \<mapsto> ''B'', ''image_url'' \<mapsto> ''b.png''],
               [''id'' \<mapsto> ''C'', ''image_url'' \<mapsto> ''c.png'']] \<rparr>"

definition demo_open :: "string \<Rightarrow> exn + real list" where
  "demo_open u =
     (if u = ''a.png'' \<or> u = ''b.png'' then Inr [1, 0]
      else if u = ''c.png'' then Inr [0, 1]
      else Inl (Ext 404))"

definition demo_env :: "(real list, real list) env" where
  "demo_env =
     \<lparr> open_image = demo_open,
       decode_upload = Inr,
       get_image_features = (\<lambda>img. if length img = 2 then Inr img else Inl (Ext 1)),
       argsort = stable_argsort,
       parse_float = (\<lambda>_. None),
       stem = posix_stem,
       normalize_f32 = normalize,
       np_save = Written,
       write_text = Written \<rparr>"

definition unbuilt :: state where
  "unbuilt =
     \<lparr> df = None, embeddings = None, ids = [],
       csv_file = None, index_file = None, ids_file = None \<rparr>"

definition built3 :: state where
  "built3 =
     \<lparr> df = Some catalog3,
       embeddings = Some [[1, 0], [1, 0], [0, 1]],
       ids = [''A'', ''B'', ''C''],
       csv_file = Some (CsvTable catalog3),
       index_file = Some (NpyArray [[1, 0], [1, 0], [0, 1]]),
       ids_file = Some (JsonItems [''A'', ''B'', ''C'']) \<rparr>"

text \<open>What a test reads off a search result: the ids and the scores of its items.\<close>

definition result_ids :: "http_error + response \<Rightarrow> string list option" where
  "result_ids r = (case r of Inl _ \<Rightarrow> None | Inr resp \<Rightarrow> Some (map p_id (items resp)))"

definition result_scores :: "http_error + response \<Rightarrow> real option list option" where
  "result_scores r = (case r of Inl _ \<Rightarrow> None | Inr resp \<Rightarrow> Some (map p_score (items resp)))"

text \<open>
  A catalog whose only row has an empty \<open>id\<close>, a \<open>sku\<close> and an image; and one whose
  ids are partly null-like.
\<close>

definition sku_catalog :: dataframe where
  "sku_catalog =
     \<lparr> columns = [''id'', ''sku'', ''image''],
       rows = [[''id'' \<mapsto> [], ''sku'' \<mapsto> ''S1'', ''image'' \<mapsto> '' img/a.jpg '']] \<rparr>"

definition mixed_catalog :: dataframe where
  "mixed_catalog =
     \<lparr> columns = [''id'', ''sku'', ''Photo''],
       rows = [[''id'' \<mapsto> '' P1 '', ''sku'' \<mapsto> ''S1'', ''Photo'' \<mapsto> ''img/a.jpg''],
               [''id'' \<mapsto> ''NaN'', ''sku'' \<mapsto> ''S2'', ''Photo'' \<mapsto> ''img/b.jpg''],
               [''id'' \<mapsto> ''P3'', ''sku'' \<mapsto> ''S3'', ''Photo'' \<mapsto> ''  '']] \<rparr>"

text \<open>
  A catalog whose second image cannot be opened; states whose files hold it, hold
  nothing, or hold an index whose matrix and id list do not match.
\<close>

definition catalog_bad :: dataframe where
  "catalog_bad =
     \<lparr> columns = [''id'', ''image_url''],
       rows = [[''id'' \<mapsto> ''A'', ''image_url'' \<mapsto> ''a.png''],
               [''id'' \<mapsto> ''X'', ''image_url'' \<mapsto> ''missing.png''],
               [''id'' \<mapsto> ''C'', ''image_url'' \<mapsto> ''c.png'']] \<rparr>"

definition with_csv :: "dataframe \<Rightarrow> state" where
  "with_csv d = unbuilt \<lparr> csv_file := Some (CsvTable d) \<rparr>"

definition stale_files :: state where
  "stale_files =
     unbuilt \<lparr> index_file := Some (NpyArray [[1, 0], [0, 1]]),
               ids_file := Some (JsonItems [''A'']) \<rparr>"

definition unnormalized_files :: state where
  "unnormalized_files =
     unbuilt \<lparr> index_file := Some (NpyArray [[2, 0]]),
               ids_file := Some (JsonItems [''A'', ''B'']) \<rparr>"

definition old_catalog :: dataframe where
  "old_catalog =
     \<lparr> columns = [''id'', ''image_url''],
       rows = [[''id'' \<mapsto> ''Z'', ''image_url'' \<mapsto> ''c.png'']] \<rparr>"

definition old_index :: state where
  "old_index =
     unbuilt \<lparr> df := Some old_catalog, embeddings := Some [[0, 1]], ids := [''Z''] \<rparr>"

text \<open>
  Three servers. The first answers attempt 1 with 403, then 200 and an empty body, then
  a broken connection, and serves a body in three chunks to the first profile of
  attempt 2. The second fails nine times, the ninth with 503. The third answers every
  request with 200 and an empty body. And a URL that is no URL (such as \<open>http://[::1\<close>):
  every request raises before anything is sent.
\<close>

definition picky_net :: "nat \<Rightarrow> nat \<Rightarrow> http_response" where
  "picky_net a i =
     (if a = 1 \<and> i = 0 then Status 403 [''denied'']
      else if a = 1 \<and> i = 1 then Status 200 [[], []]
      else if a = 2 \<and> i = 0 then Status 200 [''PNG'', [], ''DATA'']
      else Raised (Ext 0))"

definition hollow_net :: "nat \<Rightarrow> nat \<Rightarrow> http_response" where
  "hollow_net a i = Status 200 []"

definition dead_net :: "nat \<Rightarrow> nat \<Rightarrow> http_response" where
  "dead_net a i = (if a = 3 \<and> i = 2 then Status 503 [] else Raised (Ext (10 * a + i)))"

definition invalid_url_net :: "nat \<Rightarrow> nat \<Rightarrow> http_response" where
  "invalid_url_net a i = Raised (Ext 22)"

text \<open>
  A run on numpy as it computes. \<open>f32_normalize\<close> is line 278 in float32 at the feature
  vectors of the examples: (1,0) and (0,1) have norm 1, \<open>1 + 1e-10\<close> rounds to 1 and the
  quotient is the vector itself; (3,4) has norm 5, \<open>5 + 1e-10\<close> rounds to 5, and 3/5 and
  4/5 round to the float32 values \<open>5033165 / 2^23\<close> and \<open>13421773 / 2^24\<close>.
  \<open>observed_argsort\<close> is what \<open>np.argsort\<close> returns for the keys
  \<open>(-0, -1, -1, -1, -1, -1, -1)\<close> where numpy sorts float32 keys with its AVX-512 sorting
  network: the six equal keys come out in the order 1, 2, 3, 4, 6, 5. \<open>d.png\<close> has the
  features (3,4). (The examples normalise no other vector and sort no other array with
  tied keys; elsewhere the identity and the stable order stand in.)
\<close>

definition f32_normalize :: "real list \<Rightarrow> real list" where
  "f32_normalize v = (if v = [3, 4] then [5033165 / 8388608, 13421773 / 16777216] else v)"

definition observed_argsort :: "real list \<Rightarrow> nat list" where
  "observed_argsort xs =
     (if xs = [0, -1, -1, -1, -1, -1, -1] then [1, 2, 3, 4, 6, 5, 0] else stable_argsort xs)"

definition numpy_open :: "string \<Rightarrow> exn + real list" where
  "numpy_open u = (if u = ''d.png'' then Inr [3, 4] else demo_open u)"

definition numpy_env :: "(real list, real list) env" where
  "numpy_env =
     \<lparr> open_image = numpy_open,
       decode_upload = Inr,
       get_image_features = (\<lambda>img. if length img = 2 then Inr img else Inl (Ext 1)),
       argsort = observed_argsort,
       parse_float = (\<lambda>_. None),
       stem = posix_stem,
       normalize_f32 = f32_normalize,
       np_save = Written,
       write_text = Written \<rparr>"

text \<open>
  An index of seven rows: row 0 is orthogonal to the query \<open>a.png\<close>, rows 1 to 6 equal
  it.
\<close>

definition catalog7 :: dataframe where
  "catalog7 =
     \<lparr> columns = [''id'', ''image_url''],
       rows = [[''id'' \<mapsto> ''R0'', ''image_url'' \<mapsto> ''c.png''],
               [''id'' \<mapsto> ''R1'', ''image_url'' \<mapsto> ''a.png''],
               [''id'' \<mapsto> ''R2'', ''image_url'' \<mapsto> ''a.png''],
               [''id'' \<mapsto> ''R3'', ''image_url'' \<mapsto> ''a.png''],
               [''id'' \<mapsto> ''R4'', ''image_url'' \<mapsto> ''a.png''],
               [''id'' \<mapsto> ''R5'', ''image_url'' \<mapsto> ''a.png''],
               [''id'' \<mapsto> ''R6'', ''image_url'' \<mapsto> ''a.png'']] \<rparr>"

definition built7 :: state where
  "built7 =
     \<lparr> df = Some catalog7,
       embeddings = Some [[0, 1], [1, 0], [1, 0], [1, 0], [1, 0], [1, 0], [1, 0]],
       ids = [''R0'', ''R1'', ''R2'', ''R3'', ''R4'', ''R5'', ''R6''],
       csv_file = Some (CsvTable catalog7),
       index_file = Some (NpyArray [[0, 1], [1, 0], [1, 0], [1, 0], [1, 0], [1, 0], [1, 0]]),
       ids_file = Some (JsonItems [''R0'', ''R1'', ''R2'', ''R3'', ''R4'', ''R5'', ''R6'']) \<rparr>"

text \<open>
  A process that has published the index of \<open>old_catalog\<close>, with both files, and whose
  catalog file now holds \<open>catalog3\<close>; and an environment in which the ids file cannot be
  opened for writing (errno 13).
\<close>

definition rebuild_state :: state where
  "rebuild_state =
     \<lparr> df = Some old_catalog,
       embeddings = Some [[0, 1]],
       ids = [''Z''],
       csv_file = Some (CsvTable catalog3),
       index_file = Some (NpyArray [[0, 1]]),
       ids_file = Some (JsonItems [''Z'']) \<rparr>"

definition ids_unwritable_env :: "(real list, real list) env" where
  "ids_unwritable_env = numpy_env \<lparr> write_text := NotWritten 13 \<rparr>"

text \<open>A catalog of one record, whose image has the features (3,4).\<close>

definition catalog34 :: dataframe where
  "catalog34 =
     \<lparr> columns = [''id'', ''image_url''],
       rows = [[''id'' \<mapsto> ''D'', ''image_url'' \<mapsto> ''d.png'']] \<rparr>"

section \<open>Properties of search\<close>

lemmas search_eval =
  search_def index_ready_def load_query_def img_to_vec_def normalize_def l2norm_def
  matvec_def dot_def stable_argsort_def demo_env_def
  demo_open_def built3_def catalog3_def unbuilt_def result_ids_def result_scores_def
  row_to_payload_def cell_def truthy_def eps_def Let_def

lemmas numpy_eval =
  search_def index_ready_def load_query_def img_to_vec_def f32_normalize_def
  matvec_def dot_def stable_argsort_def observed_argsort_def numpy_env_def numpy_open_def
  demo_open_def built7_def catalog7_def result_ids_def result_scores_def
  row_to_payload_def cell_def truthy_def Let_def

lemma ranked_Nil: "ranked e d idl sims ms [] = []"
  by (simp add: ranked_def)

lemma ranked_Cons:
  "ranked e d idl sims ms (i # order) =
     (if sims ! i < ms then ranked e d idl sims ms order
      else case resolve e d idl sims i of
             None \<Rightarrow> ranked e d idl sims ms order
           | Some p \<Rightarrow> p # ranked e d idl sims ms order)"
  by (simp add: ranked_def split: option.splits)

text \<open>
  While fewer than \<open>top_k\<close> results are held, the loop returns the first \<open>top_k\<close> of what it
  holds followed by the ranking of the indices still to visit.
\<close>

lemma search_loop_ranked:
  "set order \<subseteq> {..<length sims} \<Longrightarrow> length sims \<le> length idl \<Longrightarrow>
   int (length results) < top_k \<Longrightarrow>
   search_loop e d idl sims ms top_k order results =
     Inr (take (nat top_k) (results @ ranked e d idl sims ms order))"
proof (induction order arbitrary: results)
  case Nil
  then show ?case by (simp add: ranked_Nil)
next
  case (Cons idx order)
  have inr: "idx < length sims" "idx < length idl" using Cons.prems by auto
  show ?case
  proof (cases "sims ! idx < ms")
    case True
    with Cons inr show ?thesis by (simp add: ranked_Cons)
  next
    case pass: False
    show ?thesis
    proof (cases "filter (\<lambda>r. cell r ''id'' = idl ! idx) (rows d)")
      case Nil
      then have "resolve e d idl sims idx = None" by (simp add: resolve_def)
      with Cons inr pass Nil show ?thesis by (simp add: ranked_Cons)
    next
      case (Cons r rest)
      then have res: "resolve e d idl sims idx = Some (row_to_payload e r (Some (sims ! idx)))"
        by (simp add: resolve_def)
      show ?thesis
      proof (cases "top_k \<le> int (length results) + 1")
        case True
        with Cons.prems(3) have "nat top_k = Suc (length results)" by linarith
        with True inr pass Cons res show ?thesis by (simp add: ranked_Cons)
      next
        case False
        then have "int (length (results @ [row_to_payload e r (Some (sims ! idx))])) < top_k"
          by simp
        from Cons.IH[OF _ Cons.prems(2) this] Cons.prems(1) False inr pass Cons res
        show ?thesis by (simp add: ranked_Cons)
      qed
    qed
  qed
qed

text \<open>
  Once \<open>top_k\<close> results are held (always, when \<open>top_k \<le> 0\<close>), the loop stops at the first
  index that reaches the threshold, with or without a row for it.
\<close>

lemma search_loop_saturated:
  "set order \<subseteq> {..<length sims} \<Longrightarrow> length sims \<le> length idl \<Longrightarrow>
   top_k \<le> int (length results) \<Longrightarrow>
   search_loop e d idl sims ms top_k order results =
     Inr (results @
          (case filter (\<lambda>i. \<not> sims ! i < ms) order of
             [] \<Rightarrow> []
           | i # _ \<Rightarrow> (case resolve e d idl sims i of None \<Rightarrow> [] | Some p \<Rightarrow> [p])))"
  by (induction order) (auto simp: resolve_def Let_def split: list.splits)

lemma search_loop_nonpos:
  "top_k \<le> 0 \<Longrightarrow> search_loop e d idl sims ms top_k order results = Inr r \<Longrightarrow>
   length r \<le> Suc (length results)"
  by (induction order) (auto simp: Let_def split: if_splits list.splits)

lemma p_score_row_to_payload: "p_score (row_to_payload e r sc) = sc"
  by (simp add: row_to_payload_def)

lemma is_argsort_set:
  assumes "is_argsort xs order"
  shows "set order = {..<length xs}"
proof -
  from assms have "mset order = mset [0..<length xs]"
    by (simp add: is_argsort_def)
  then have "set order = set [0..<length xs]"
    by (rule mset_eq_setD)
  then show ?thesis
    by (simp add: lessThan_atLeast0)
qed

lemma ranked_scores:
  "map p_score (ranked e d idl sims ms order) =
   map Some (map (\<lambda>i. sims ! i)
     (filter (\<lambda>i. resolve e d idl sims i \<noteq> None) (filter (\<lambda>i. \<not> sims ! i < ms) order)))"
proof (induction order)
  case Nil
  show ?case by (simp add: ranked_Nil)
next
  case (Cons i order)
  show ?case
  proof (cases "resolve e d idl sims i")
    case None
    with Cons show ?thesis by (simp add: ranked_Cons)
  next
    case (Some p)
    then have "p_score p = Some (sims ! i)"
      by (auto simp: resolve_def p_score_row_to_payload split: list.splits)
    with Some Cons show ?thesis by (simp add: ranked_Cons)
  qed
qed

lemma descending_along_argsort:
  assumes "is_argsort (map uminus sims) order"
  shows "sorted_wrt (\<lambda>a b. b \<le> a) (map (\<lambda>i. sims ! i) (filter P order))"
proof -
  have rng: "\<forall>i\<in>set order. i < length sims"
    using is_argsort_set[OF assms] by auto
  have "sorted_wrt (\<lambda>i j. map uminus sims ! i \<le> map uminus sims ! j) order"
    using assms by (simp add: is_argsort_def sorted_map)
  then have "sorted_wrt (\<lambda>i j. sims ! j \<le> sims ! i) order"
    by (rule sorted_wrt_mono_rel[rotated]) (use rng in auto)
  then have "sorted_wrt (\<lambda>i j. sims ! j \<le> sims ! i) (filter P order)"
    by (rule sorted_wrt_filter)
  then show ?thesis by (simp add: sorted_wrt_map)
qed

lemma argsort7: "is_argsort [0, -1, -1, -1, -1, -1, -1] [1, 2, 3, 4, 6, 5, 0]"
proof -
  have "[0..<length [0, -1, -1, -1, -1, -1, -1 :: real]] = [0, 1, 2, 3, 4, 5, 6]"
    by (simp add: upt_conv_Cons eval_nat_numeral)
  then have "mset [1, 2, 3, 4, 6, 5, 0] = mset [0..<length [0, -1, -1, -1, -1, -1, -1 :: real]]"
    by (simp only: mset.simps add_mset_commute)
  moreover have "sorted (map (\<lambda>i. [0, -1, -1, -1, -1, -1, -1 :: real] ! i) [1, 2, 3, 4, 6, 5, 0])"
    by simp
  ultimately show ?thesis unfolding is_argsort_def by blast
qed

lemma observed7: "observed_argsort [0, -1, -1, -1, -1, -1, -1] = [1, 2, 3, 4, 6, 5, 0]"
  by (simp add: observed_argsort_def)

subsection \<open>C1: ranking and truncation\<close>

text \<open>
  C1, as the code has it. For a published index whose id list covers the matrix rows, a
  query that loads and embeds, \<open>min_similarity\<close> in range and a positive \<open>top_k\<close>:
  whatever permutation \<open>np.argsort(-sims)\<close> returns within its contract, search succeeds
  and its items are the first \<open>top_k\<close> of the candidates taken in that order that reach
  \<open>min_similarity\<close> and resolve in the product table. The scores of the items are
  non-increasing; there are exactly \<open>top_k\<close> items when at least \<open>top_k\<close> candidates pass
  and resolve, and all of them otherwise. The order among equal scores is the one
  argsort leaves: the code asks for no stable sort.
\<close>

theorem search_ranked_prefix:
  assumes ready: "index_ready s"
    and ms: "0 \<le> ms" "ms \<le> 1"
    and q: "load_query e image_url file = Inr (img, meta)"
    and v: "img_to_vec e img = Inr qvec"
    and sims: "matvec (the (embeddings s)) qvec = Inr sims"
    and srt: "is_argsort (map uminus sims) (argsort e (map uminus sims))"
    and idl: "length sims \<le> length (ids s)"
    and k: "1 \<le> top_k"
  shows "\<exists>its scores.
           search e s image_url top_k ms file =
             Inr \<lparr> query = meta, count = length its, items = its \<rparr>
         \<and> its = take (nat top_k)
                   (ranked e (the (df s)) (ids s) sims ms (argsort e (map uminus sims)))
         \<and> map p_score its = map Some scores \<and> sorted_wrt (\<lambda>a b. b \<le> a) scores
         \<and> (top_k \<le> int (length (ranked e (the (df s)) (ids s) sims ms
                                      (argsort e (map uminus sims))))
              \<longrightarrow> int (length its) = top_k)
         \<and> (int (length (ranked e (the (df s)) (ids s) sims ms
                            (argsort e (map uminus sims)))) < top_k
              \<longrightarrow> its = ranked e (the (df s)) (ids s) sims ms (argsort e (map uminus sims)))"
proof -
  let ?order = "argsort e (map uminus sims)"
  let ?R = "ranked e (the (df s)) (ids s) sims ms ?order"
  let ?P = "\<lambda>i. resolve e (the (df s)) (ids s) sims i \<noteq> None"
  let ?sc = "map (\<lambda>i. sims ! i) (filter ?P (filter (\<lambda>i. \<not> sims ! i < ms) ?order))"
  have rng: "set ?order \<subseteq> {..<length sims}"
    using is_argsort_set[OF srt] by simp
  have loop: "search_loop e (the (df s)) (ids s) sims ms top_k ?order [] =
      Inr (take (nat top_k) ?R)"
    using search_loop_ranked[OF rng idl, of "[]" top_k e "the (df s)" ms] k by simp
  have res: "search e s image_url top_k ms file =
      Inr \<lparr> query = meta, count = length (take (nat top_k) ?R), items = take (nat top_k) ?R \<rparr>"
    using ready ms q v sims loop by (simp add: search_def)
  have "sorted_wrt (\<lambda>a b. b \<le> a)
          (map (\<lambda>i. sims ! i) (filter (\<lambda>i. ?P i \<and> \<not> sims ! i < ms) ?order))"
    by (rule descending_along_argsort[OF srt])
  then have sorted_sc: "sorted_wrt (\<lambda>a b. b \<le> a) ?sc"
    by (simp add: conj_commute)
  have sc: "map p_score (take (nat top_k) ?R) = map Some (take (nat top_k) ?sc)"
    unfolding take_map[symmetric] ranked_scores ..
  have sorted_take: "sorted_wrt (\<lambda>a b. b \<le> a) (take (nat top_k) ?sc)"
    using sorted_sc by (rule sorted_wrt_take)
  have len1: "top_k \<le> int (length ?R) \<longrightarrow> int (length (take (nat top_k) ?R)) = top_k"
    using k by auto
  have len2: "int (length ?R) < top_k \<longrightarrow> take (nat top_k) ?R = ?R"
    by auto
  show ?thesis
    using res sc sorted_take len1 len2 by blast
qed

text \<open>
  The theorem at the seven-row index, queried with \<open>a.png\<close>, \<open>top_k = 2\<close>: two items,
  \<open>R1\<close> then \<open>R2\<close>.
\<close>

theorem search_ranked_prefix_witness:
  "index_ready built7 \<and> (1::int) \<le> 2
   \<and> is_argsort (map uminus [0, 1, 1, 1, 1, 1, 1])
        (argsort numpy_env (map uminus [0, 1, 1, 1, 1, 1, 1]))
   \<and> (\<exists>its. search numpy_env built7 (Some ''a.png'') 2 0 None =
               Inr \<lparr> query = FromUrlOrPath ''a.png'', count = length its, items = its \<rparr>
            \<and> int (length its) = 2)
   \<and> result_ids (search numpy_env built7 (Some ''a.png'') 2 0 None) = Some [''R1'', ''R2'']"
proof -
  have h1: "index_ready built7" by (simp add: numpy_eval)
  have h2: "(0::real) \<le> 0" "(0::real) \<le> 1" by simp_all
  have h3: "load_query numpy_env (Some ''a.png'') None = Inr ([1, 0], FromUrlOrPath ''a.png'')"
    by (simp add: numpy_eval)
  have h4: "img_to_vec numpy_env [1, 0] = Inr [1, 0]" by (simp add: numpy_eval)
  have h5: "matvec (the (embeddings built7)) [1, 0] = Inr [0, 1, 1, 1, 1, 1, 1]"
    by (simp add: numpy_eval)
  have h6: "is_argsort (map uminus [0, 1, 1, 1, 1, 1, 1])
      (argsort numpy_env (map uminus [0, 1, 1, 1, 1, 1, 1]))"
    using argsort7 by (simp add: numpy_env_def observed7)
  have h7: "length [0, 1, 1, 1, 1, 1, 1 :: real] \<le> length (ids built7)"
    by (simp add: numpy_eval)
  have h8: "(1::int) \<le> 2" by simp
  have len: "length (ranked numpy_env (the (df built7)) (ids built7) [0, 1, 1, 1, 1, 1, 1] 0
                (argsort numpy_env (map uminus [0, 1, 1, 1, 1, 1, 1]))) = 7"
    by (simp add: ranked_def resolve_def numpy_eval)
  have ids: "result_ids (search numpy_env built7 (Some ''a.png'') 2 0 None) = Some [''R1'', ''R2'']"
    by (simp add: numpy_eval)
  from search_ranked_prefix[OF h1 h2 h3 h4 h5 h6 h7 h8] len
  have "\<exists>its. search numpy_env built7 (Some ''a.png'') 2 0 None =
               Inr \<lparr> query = FromUrlOrPath ''a.png'', count = length its, items = its \<rparr>
            \<and> int (length its) = 2"
    by auto
  with h1 h6 ids show ?thesis by simp
qed

text \<open>
  C1 as stated fails on the seven-row index, whose rows 1 to 6 all score 1 against the
  query and whose row 0 scores 0. Where numpy sorts float32 keys with its AVX-512
  network, \<open>np.argsort(-sims)\<close> returns 1, 2, 3, 4, 6, 5, 0, and search returns \<open>R6\<close>
  before \<open>R5\<close> at the same score 1: the tie is not broken by ascending build index.
\<close>

theorem search_tie_order_counterexample:
  "result_ids (search numpy_env built7 (Some ''a.png'') 12 0 None) =
     Some [''R1'', ''R2'', ''R3'', ''R4'', ''R6'', ''R5'', ''R0'']
   \<and> result_scores (search numpy_env built7 (Some ''a.png'') 12 0 None) =
       Some [Some 1, Some 1, Some 1, Some 1, Some 1, Some 1, Some 0]
   \<and> ids built7 ! 5 = ''R5'' \<and> ids built7 ! 6 = ''R6''
   \<and> argsort numpy_env (map uminus [0, 1, 1, 1, 1, 1, 1]) = [1, 2, 3, 4, 6, 5, 0]
   \<and> is_argsort (map uminus [0, 1, 1, 1, 1, 1, 1])
        (argsort numpy_env (map uminus [0, 1, 1, 1, 1, 1, 1]))"
proof -
  have a: "argsort numpy_env (map uminus [0, 1, 1, 1, 1, 1, 1]) = [1, 2, 3, 4, 6, 5, 0]"
    by (simp add: numpy_env_def observed7)
  have b: "is_argsort (map uminus [0, 1, 1, 1, 1, 1, 1])
        (argsort numpy_env (map uminus [0, 1, 1, 1, 1, 1, 1]))"
    using argsort7 by (simp add: numpy_env_def observed7)
  have c: "result_ids (search numpy_env built7 (Some ''a.png'') 12 0 None) =
     Some [''R1'', ''R2'', ''R3'', ''R4'', ''R6'', ''R5'', ''R0'']"
    "result_scores (search numpy_env built7 (Some ''a.png'') 12 0 None) =
       Some [Some 1, Some 1, Some 1, Some 1, Some 1, Some 1, Some 0]"
    "ids built7 ! 5 = ''R5''" "ids built7 ! 6 = ''R6''"
    by (simp_all add: numpy_eval)
  from a b c show ?thesis by blast
qed

subsection \<open>C10: \<open>top_k \<le> 0\<close>\<close>

text \<open>
  C10. search has no check on \<open>top_k\<close>. With \<open>top_k \<le> 0\<close>, every response it returns has
  at most one item; and a call that passes the index and \<open>min_similarity\<close> checks, with a
  query that loads and embeds against an index whose id list covers the matrix rows, is
  answered, not rejected: the loop stops at the first candidate that reaches the
  threshold, so the items are that candidate if its id resolves and nothing otherwise.
\<close>

theorem search_nonpositive_top_k:
  assumes k: "top_k \<le> 0"
  shows "(\<forall>resp. search e s image_url top_k ms file = Inr resp \<longrightarrow>
            length (items resp) \<le> 1 \<and> count resp = length (items resp))
       \<and> (index_ready s \<and> 0 \<le> ms \<and> ms \<le> 1
          \<and> load_query e image_url file = Inr (img, meta)
          \<and> img_to_vec e img = Inr qvec
          \<and> matvec (the (embeddings s)) qvec = Inr sims
          \<and> is_argsort (map uminus sims) (argsort e (map uminus sims))
          \<and> length sims \<le> length (ids s)
          \<longrightarrow> (\<exists>its. search e s image_url top_k ms file =
                       Inr \<lparr> query = meta, count = length its, items = its \<rparr>
                \<and> its = (case filter (\<lambda>i. \<not> sims ! i < ms) (argsort e (map uminus sims)) of
                           [] \<Rightarrow> []
                         | i # _ \<Rightarrow> (case resolve e (the (df s)) (ids s) sims i of
                                      None \<Rightarrow> []
                                    | Some p \<Rightarrow> [p]))
                \<and> length its \<le> 1))"
proof (intro conjI allI impI)
  fix resp
  assume r: "search e s image_url top_k ms file = Inr resp"
  then obtain d idl sims' order where
    loop: "search_loop e d idl sims' ms top_k order [] = Inr (items resp)"
    and cnt: "count resp = length (items resp)"
    by (auto simp: search_def split: if_splits sum.splits prod.splits)
  have "length (items resp) \<le> Suc (length ([] :: payload list))"
    using k loop by (rule search_loop_nonpos)
  then show "length (items resp) \<le> 1" by simp
  show "count resp = length (items resp)" by (rule cnt)
next
  assume a: "index_ready s \<and> 0 \<le> ms \<and> ms \<le> 1
          \<and> load_query e image_url file = Inr (img, meta)
          \<and> img_to_vec e img = Inr qvec
          \<and> matvec (the (embeddings s)) qvec = Inr sims
          \<and> is_argsort (map uminus sims) (argsort e (map uminus sims))
          \<and> length sims \<le> length (ids s)"
  let ?order = "argsort e (map uminus sims)"
  let ?its = "case filter (\<lambda>i. \<not> sims ! i < ms) ?order of
                [] \<Rightarrow> []
              | i # _ \<Rightarrow> (case resolve e (the (df s)) (ids s) sims i of
                           None \<Rightarrow> []
                         | Some p \<Rightarrow> [p])"
  have rng: "set ?order \<subseteq> {..<length sims}"
    using a is_argsort_set[of "map uminus sims" ?order] by simp
  have idl: "length sims \<le> length (ids s)" using a by simp
  have loop: "search_loop e (the (df s)) (ids s) sims ms top_k ?order [] = Inr ([] @ ?its)"
    by (rule search_loop_saturated[OF rng idl]) (use k in simp)
  have res: "search e s image_url top_k ms file =
      Inr \<lparr> query = meta, count = length ?its, items = ?its \<rparr>"
    using a loop by (simp add: search_def)
  have "length ?its \<le> 1"
    by (simp split: list.splits option.splits)
  with res show "\<exists>its. search e s image_url top_k ms file =
                       Inr \<lparr> query = meta, count = length its, items = its \<rparr>
                \<and> its = ?its \<and> length its \<le> 1"
    by blast
qed

text \<open>The theorem at the three-row catalog with \<open>top_k = -3\<close>: accepted, one item.\<close>

theorem search_nonpositive_top_k_witness:
  "(-3::int) \<le> 0 \<and> index_ready built3
   \<and> search demo_env built3 (Some ''a.png'') (-3) 0 None =
       Inr \<lparr> query = FromUrlOrPath ''a.png'', count = 1,
             items = [\<lparr> p_id = ''A'', p_name = [], p_image_url = ''a.png'', p_price = None,
                        p_brand = None, p_description = None,
                        p_score = Some (10000000000 / 10000000001) \<rparr>] \<rparr>
   \<and> length (items \<lparr> query = FromUrlOrPath ''a.png'', count = 1,
             items = [\<lparr> p_id = ''A'', p_name = [], p_image_url = ''a.png'', p_price = None,
                        p_brand = None, p_description = None,
                        p_score = Some (10000000000 / 10000000001) \<rparr>] \<rparr>) \<le> 1"
proof -
  have k: "(-3::int) \<le> 0" by simp
  have r: "search demo_env built3 (Some ''a.png'') (-3) 0 None =
       Inr \<lparr> query = FromUrlOrPath ''a.png'', count = 1,
             items = [\<lparr> p_id = ''A'', p_name = [], p_image_url = ''a.png'', p_price = None,
                        p_brand = None, p_description = None,
                        p_score = Some (10000000000 / 10000000001) \<rparr>] \<rparr>"
    by (simp add: search_eval)
  have h1: "index_ready built3" by (simp add: search_eval)
  from search_nonpositive_top_k[OF k, of demo_env built3 "Some ''a.png''" 0 None] r
  have "length (items \<lparr> query = FromUrlOrPath ''a.png'', count = 1,
             items = [\<lparr> p_id = ''A'', p_name = [], p_image_url = ''a.png'', p_price = None,
                        p_brand = None, p_description = None,
                        p_score = Some (10000000000 / 10000000001) \<rparr>] \<rparr>) \<le> 1"
    by blast
  with k h1 r show ?thesis by blast
qed

subsection \<open>C6: the two refusals\<close>

text \<open>
  C6, as the code has it. The readiness test comes first: search answers 400 "Index not
  built" exactly when \<open>embeddings\<close> is unset, \<open>df\<close> is unset or the matrix has no row,
  whatever \<open>min_similarity\<close> is. It answers 422 "min_similarity must be in [0,1]" exactly
  when the index is ready and \<open>min_similarity\<close> lies outside [0,1]. The two errors differ,
  and a response, also one with no item, is returned only past both tests.
\<close>

theorem search_refusals:
  "(search e s image_url top_k ms file = Inl (HTTPException 400 IndexNotBuilt)
      \<longleftrightarrow> (embeddings s = None \<or> df s = None \<or> embeddings s = Some []))
   \<and> (search e s image_url top_k ms file = Inl (HTTPException 422 MinSimilarityRange)
      \<longleftrightarrow> \<not> (embeddings s = None \<or> df s = None \<or> embeddings s = Some [])
          \<and> \<not> (0 \<le> ms \<and> ms \<le> 1))
   \<and> HTTPException 400 IndexNotBuilt \<noteq> HTTPException 422 MinSimilarityRange
   \<and> (\<forall>resp. search e s image_url top_k ms file = Inr resp \<longrightarrow>
         \<not> (embeddings s = None \<or> df s = None \<or> embeddings s = Some [])
         \<and> 0 \<le> ms \<and> ms \<le> 1)"
proof -
  have ready: "index_ready s \<longleftrightarrow> \<not> (embeddings s = None \<or> df s = None \<or> embeddings s = Some [])"
    by (auto simp: index_ready_def split: option.splits)
  have lq: "load_query e image_url file \<noteq> Inl (HTTPException 400 IndexNotBuilt)"
    "load_query e image_url file \<noteq> Inl (HTTPException 422 MinSimilarityRange)"
    by (auto simp: load_query_def split: option.splits sum.splits if_splits prod.splits)
  have a: "search e s image_url top_k ms file = Inl (HTTPException 400 IndexNotBuilt)
      \<longleftrightarrow> \<not> index_ready s"
    using lq by (auto simp: search_def split: sum.splits prod.splits)
  have b: "search e s image_url top_k ms file = Inl (HTTPException 422 MinSimilarityRange)
      \<longleftrightarrow> index_ready s \<and> \<not> (0 \<le> ms \<and> ms \<le> 1)"
    using lq by (auto simp: search_def split: sum.splits prod.splits)
  have c: "\<forall>resp. search e s image_url top_k ms file = Inr resp \<longrightarrow>
         index_ready s \<and> 0 \<le> ms \<and> ms \<le> 1"
    by (auto simp: search_def split: if_splits)
  show ?thesis
    using a b c unfolding ready by simp
qed

text \<open>
  The theorem at the three-row catalog, queried with \<open>c.png\<close> at \<open>min_similarity = 1\<close>: a
  response with no item (every score is below 1), which is not an error; the same call
  with 11/10 is refused with 422.
\<close>

theorem search_refusals_witness:
  "search demo_env built3 (Some ''c.png'') 12 1 None =
     Inr \<lparr> query = FromUrlOrPath ''c.png'', count = 0, items = [] \<rparr>
   \<and> \<not> (embeddings built3 = None \<or> df built3 = None \<or> embeddings built3 = Some [])
   \<and> search demo_env built3 (Some ''c.png'') 12 (11 / 10) None =
       Inl (HTTPException 422 MinSimilarityRange)
   \<and> search demo_env unbuilt (Some ''c.png'') 12 0 None = Inl (HTTPException 400 IndexNotBuilt)"
proof -
  have r: "search demo_env built3 (Some ''c.png'') 12 1 None =
     Inr \<lparr> query = FromUrlOrPath ''c.png'', count = 0, items = [] \<rparr>"
    by (simp add: search_eval)
  from search_refusals[of demo_env built3 "Some ''c.png''" 12 1 None] r
  have ready: "\<not> (embeddings built3 = None \<or> df built3 = None \<or> embeddings built3 = Some [])"
    by blast
  have "\<not> (0 \<le> (11 / 10 :: real) \<and> (11 / 10 :: real) \<le> 1)" by simp
  with search_refusals[of demo_env built3 "Some ''c.png''" 12 "11 / 10" None] ready
  have v: "search demo_env built3 (Some ''c.png'') 12 (11 / 10) None =
       Inl (HTTPException 422 MinSimilarityRange)"
    by blast
  have "embeddings unbuilt = None" by (simp add: unbuilt_def)
  with search_refusals[of demo_env unbuilt "Some ''c.png''" 12 0 None]
  have n: "search demo_env unbuilt (Some ''c.png'') 12 0 None = Inl (HTTPException 400 IndexNotBuilt)"
    by blast
  from r ready v n show ?thesis by blast
qed

text \<open>
  C6 as stated fails where both conditions hold: before any build,
  \<open>min_similarity = 11/10\<close> is answered with 400 "Index not built", not with the 422
  validation error, although it lies outside [0,1].
\<close>

theorem search_unbuilt_bad_similarity_counterexample:
  "\<not> (0 \<le> (11 / 10 :: real) \<and> (11 / 10 :: real) \<le> 1)
   \<and> search demo_env unbuilt (Some ''a.png'') 12 (11 / 10) None =
       Inl (HTTPException 400 IndexNotBuilt)
   \<and> search demo_env unbuilt (Some ''a.png'') 12 (11 / 10) None \<noteq>
       Inl (HTTPException 422 MinSimilarityRange)"
  by (simp add: search_eval)

section \<open>Properties of the dataset normalizer\<close>

lemmas csv_eval =
  load_csv_filtered_def fillna_def detect_image_column_def with_images_def with_ids_def
  set_column_def assign_where_def rename_column_def keep_rows_def series_def stem_or_empty_def
  cell_def lower_def lower_char_def strip_def is_space_def posix_stem_def path_name_def
  demo_env_def Let_def sku_catalog_def mixed_catalog_def id_image_pairs_def












subsection \<open>C3: the id cascade\<close>




section \<open>Properties of the index builder and of startup\<close>

lemmas build_eval =
  build_index_from_csv_def vstack_def publish_def state_after_def publish_sequence_def
  assign_global_def on_startup_def record_vector_def img_to_vec_def normalize_def l2norm_def
  eps_def demo_env_def demo_open_def unbuilt_def with_csv_def catalog3_def catalog_bad_def
  stale_files_def unnormalized_files_def old_catalog_def old_index_def view_def built3_def

lemmas numpy_build_eval =
  build_index_from_csv_def vstack_def publish_def state_after_def publish_sequence_def
  assign_global_def on_startup_def record_vector_def img_to_vec_def f32_normalize_def
  numpy_env_def numpy_open_def demo_open_def unbuilt_def with_csv_def catalog3_def
  catalog_bad_def catalog34_def rebuild_state_def ids_unwritable_env_def old_catalog_def
  unnormalized_files_def

lemma build_loop_eq:
  "build_loop e rs vecs ids_local skipped =
     (vecs @ List.map_filter (record_vector e) rs,
      ids_local @ map (\<lambda>r. cell r ''id'') (filter (\<lambda>r. record_vector e r \<noteq> None) rs),
      skipped + length (filter (\<lambda>r. record_vector e r = None) rs))"
  by (induction rs arbitrary: vecs ids_local skipped)
     (auto simp: record_vector_def split: sum.splits)

lemma length_map_filter:
  "length (List.map_filter f xs) = length (filter (\<lambda>x. f x \<noteq> None) xs)"
  by (induction xs) (auto split: option.splits)



lemma state_after_3:
  "state_after 3 (d, M, idl) s = s \<lparr> df := Some d, embeddings := Some M, ids := idl \<rparr>"
  by (simp add: state_after_def publish_sequence_def assign_global_def)

lemma publish_eq:
  "publish (d, M, idl) s = s \<lparr> df := Some d, embeddings := Some M, ids := idl \<rparr>"
  by (simp add: publish_def state_after_def publish_sequence_def assign_global_def)



lemma vstack_Inr: "vstack vecs = Inr M \<Longrightarrow> M = vecs"
  by (auto simp: vstack_def split: list.splits if_splits)

text \<open>The build, in terms of the records that yield a vector.\<close>

lemma build_cases:
  "build_index_from_csv e s =
     (case load_csv_filtered e (csv_file s) of
        Inl x \<Rightarrow> (Inl x, s)
      | Inr dframe \<Rightarrow>
          if List.map_filter (record_vector e) (rows dframe) = [] then (Inl NoImagesIndexed, s)
          else
            (case vstack (List.map_filter (record_vector e) (rows dframe)) of
               Inl x \<Rightarrow> (Inl x, s)
             | Inr M \<Rightarrow>
                 (case np_save e of
                    NotWritten n \<Rightarrow> (Inl (OSError n), s)
                  | Damaged n \<Rightarrow> (Inl (OSError n), s \<lparr> index_file := Some NpyBad \<rparr>)
                  | Written \<Rightarrow>
                      (case write_text e of
                         NotWritten n \<Rightarrow> (Inl (OSError n), s \<lparr> index_file := Some (NpyArray M) \<rparr>)
                       | Damaged n \<Rightarrow>
                           (Inl (OSError n),
                            s \<lparr> index_file := Some (NpyArray M), ids_file := Some JsonBad \<rparr>)
                       | Written \<Rightarrow>
                           (Inr \<lparr> info_count =
                                    length (filter (\<lambda>r. record_vector e r \<noteq> None) (rows dframe)),
                                  info_skipped =
                                    length (filter (\<lambda>r. record_vector e r = None) (rows dframe)) \<rparr>,
                            s \<lparr> index_file := Some (NpyArray M),
                                ids_file := Some (JsonItems (map (\<lambda>r. cell r ''id'')
                                   (filter (\<lambda>r. record_vector e r \<noteq> None) (rows dframe)))),
                                df := Some dframe, embeddings := Some M,
                                ids := map (\<lambda>r. cell r ''id'')
                                   (filter (\<lambda>r. record_vector e r \<noteq> None) (rows dframe)) \<rparr>)))))"
  by (simp add: build_index_from_csv_def build_loop_eq publish_eq Let_def
           split: sum.splits write_outcome.splits)



subsection \<open>C5: skipped records and the empty index\<close>



subsection \<open>C9: what a failed build leaves behind\<close>

text \<open>
  C9, as the code has it. A build that fails never touches the globals \<open>df\<close>,
  \<open>embeddings\<close>, \<open>ids\<close>, nor the catalog file: the three assignments come last, after both
  writes. The two index files are unchanged when the build fails before the writes (the
  catalog is missing, unreadable or without an image column, the pass produced no
  vector, the vectors cannot be stacked) or when \<open>np.save\<close> cannot open its file. When
  \<open>np.save\<close> raises midway the matrix file is left truncated; when the ids write
  raises, the matrix file already holds the new matrix (the vectors of the records that
  yielded one) and the ids file holds the old ids or is truncated. A build that succeeds writes both files and assigns the three
  globals, from one triple.
\<close>

theorem failed_build_keeps_globals:
  "(\<forall>x. fst (build_index_from_csv e s) = Inl x \<longrightarrow>
        df (snd (build_index_from_csv e s)) = df s
      \<and> embeddings (snd (build_index_from_csv e s)) = embeddings s
      \<and> ids (snd (build_index_from_csv e s)) = ids s
      \<and> csv_file (snd (build_index_from_csv e s)) = csv_file s
      \<and> (snd (build_index_from_csv e s) = s
         \<or> (\<exists>n. x = OSError n \<and> np_save e = Damaged n
                \<and> snd (build_index_from_csv e s) = s \<lparr> index_file := Some NpyBad \<rparr>)
         \<or> (\<exists>n dframe. x = OSError n \<and> np_save e = Written \<and> write_text e = NotWritten n
                \<and> load_csv_filtered e (csv_file s) = Inr dframe
                \<and> snd (build_index_from_csv e s) =
                    s \<lparr> index_file :=
                          Some (NpyArray (List.map_filter (record_vector e) (rows dframe))) \<rparr>)
         \<or> (\<exists>n dframe. x = OSError n \<and> np_save e = Written \<and> write_text e = Damaged n
                \<and> load_csv_filtered e (csv_file s) = Inr dframe
                \<and> snd (build_index_from_csv e s) =
                    s \<lparr> index_file :=
                          Some (NpyArray (List.map_filter (record_vector e) (rows dframe))),
                        ids_file := Some JsonBad \<rparr>))
      \<and> (x \<in> {CsvNotFound, CsvUnreadable, NoImageColumn, NoImagesIndexed, ShapeMismatch}
           \<longrightarrow> snd (build_index_from_csv e s) = s))
   \<and> (\<forall>i. fst (build_index_from_csv e s) = Inr i \<longrightarrow>
        (\<exists>dframe M idl.
            load_csv_filtered e (csv_file s) = Inr dframe \<and> length idl = length M \<and> M \<noteq> []
          \<and> np_save e = Written \<and> write_text e = Written
          \<and> snd (build_index_from_csv e s) =
              s \<lparr> index_file := Some (NpyArray M), ids_file := Some (JsonItems idl),
                  df := Some dframe, embeddings := Some M, ids := idl \<rparr>))"
proof (intro conjI allI impI)
  fix x
  assume f: "fst (build_index_from_csv e s) = Inl x"
  show "df (snd (build_index_from_csv e s)) = df s"
    using f by (auto simp: build_cases split: sum.splits if_splits write_outcome.splits)
  show "embeddings (snd (build_index_from_csv e s)) = embeddings s"
    using f by (auto simp: build_cases split: sum.splits if_splits write_outcome.splits)
  show "ids (snd (build_index_from_csv e s)) = ids s"
    using f by (auto simp: build_cases split: sum.splits if_splits write_outcome.splits)
  show "csv_file (snd (build_index_from_csv e s)) = csv_file s"
    using f by (auto simp: build_cases split: sum.splits if_splits write_outcome.splits)
  show "snd (build_index_from_csv e s) = s
         \<or> (\<exists>n. x = OSError n \<and> np_save e = Damaged n
                \<and> snd (build_index_from_csv e s) = s \<lparr> index_file := Some NpyBad \<rparr>)
         \<or> (\<exists>n dframe. x = OSError n \<and> np_save e = Written \<and> write_text e = NotWritten n
                \<and> load_csv_filtered e (csv_file s) = Inr dframe
                \<and> snd (build_index_from_csv e s) =
                    s \<lparr> index_file :=
                          Some (NpyArray (List.map_filter (record_vector e) (rows dframe))) \<rparr>)
         \<or> (\<exists>n dframe. x = OSError n \<and> np_save e = Written \<and> write_text e = Damaged n
                \<and> load_csv_filtered e (csv_file s) = Inr dframe
                \<and> snd (build_index_from_csv e s) =
                    s \<lparr> index_file :=
                          Some (NpyArray (List.map_filter (record_vector e) (rows dframe))),
                        ids_file := Some JsonBad \<rparr>)"
    using f by (auto simp: build_cases dest: vstack_Inr
                     split: sum.splits if_splits write_outcome.splits)
  show "snd (build_index_from_csv e s) = s"
    if "x \<in> {CsvNotFound, CsvUnreadable, NoImageColumn, NoImagesIndexed, ShapeMismatch}"
    using f that by (auto simp: build_cases split: sum.splits if_splits write_outcome.splits)
next
  fix i
  assume f: "fst (build_index_from_csv e s) = Inr i"
  then obtain dframe where l: "load_csv_filtered e (csv_file s) = Inr dframe"
    by (auto simp: build_cases split: sum.splits)
  let ?vecs = "List.map_filter (record_vector e) (rows dframe)"
  let ?idl = "map (\<lambda>r. cell r ''id'') (filter (\<lambda>r. record_vector e r \<noteq> None) (rows dframe))"
  from f l have ne: "?vecs \<noteq> []" and v: "vstack ?vecs = Inr ?vecs"
    and w: "np_save e = Written" "write_text e = Written"
    using vstack_Inr[of ?vecs]
    by (auto simp: build_cases split: sum.splits if_splits write_outcome.splits)
  have "length ?idl = length ?vecs" by (simp add: length_map_filter)
  moreover have "snd (build_index_from_csv e s) =
      s \<lparr> index_file := Some (NpyArray ?vecs), ids_file := Some (JsonItems ?idl),
          df := Some dframe, embeddings := Some ?vecs, ids := ?idl \<rparr>"
    using l ne v w by (simp add: build_cases)
  ultimately show "\<exists>dframe M idl.
            load_csv_filtered e (csv_file s) = Inr dframe \<and> length idl = length M \<and> M \<noteq> []
          \<and> np_save e = Written \<and> write_text e = Written
          \<and> snd (build_index_from_csv e s) =
              s \<lparr> index_file := Some (NpyArray M), ids_file := Some (JsonItems idl),
                  df := Some dframe, embeddings := Some M, ids := idl \<rparr>"
    using l ne w by blast
qed

text \<open>
  The theorem at a process that holds a published index and whose catalog file has
  disappeared: the build fails and nothing changes. And a rebuild that succeeds: both
  files and the globals hold the new index.
\<close>

theorem failed_build_keeps_globals_witness:
  "fst (build_index_from_csv numpy_env (built3 \<lparr> csv_file := None \<rparr>)) = Inl CsvNotFound
   \<and> snd (build_index_from_csv numpy_env (built3 \<lparr> csv_file := None \<rparr>)) =
       built3 \<lparr> csv_file := None \<rparr>
   \<and> fst (build_index_from_csv numpy_env rebuild_state) =
       Inr \<lparr> info_count = 3, info_skipped = 0 \<rparr>
   \<and> index_file (snd (build_index_from_csv numpy_env rebuild_state)) =
       Some (NpyArray [[1, 0], [1, 0], [0, 1]])
   \<and> ids_file (snd (build_index_from_csv numpy_env rebuild_state)) =
       Some (JsonItems [''A'', ''B'', ''C''])
   \<and> embeddings (snd (build_index_from_csv numpy_env rebuild_state)) =
       Some [[1, 0], [1, 0], [0, 1]]
   \<and> ids (snd (build_index_from_csv numpy_env rebuild_state)) = [''A'', ''B'', ''C'']"
proof -
  have g: "fst (build_index_from_csv numpy_env rebuild_state) =
       Inr \<lparr> info_count = 3, info_skipped = 0 \<rparr>"
    "index_file (snd (build_index_from_csv numpy_env rebuild_state)) =
       Some (NpyArray [[1, 0], [1, 0], [0, 1]])"
    "ids_file (snd (build_index_from_csv numpy_env rebuild_state)) =
       Some (JsonItems [''A'', ''B'', ''C''])"
    "embeddings (snd (build_index_from_csv numpy_env rebuild_state)) =
       Some [[1, 0], [1, 0], [0, 1]]"
    "ids (snd (build_index_from_csv numpy_env rebuild_state)) = [''A'', ''B'', ''C'']"
    by (simp_all add: numpy_build_eval csv_eval)
  have f: "fst (build_index_from_csv numpy_env (built3 \<lparr> csv_file := None \<rparr>)) = Inl CsvNotFound"
    by (simp add: build_index_from_csv_def load_csv_filtered_def)
  have "CsvNotFound \<in> {CsvNotFound, CsvUnreadable, NoImageColumn, NoImagesIndexed, ShapeMismatch}"
    by simp
  with failed_build_keeps_globals[of numpy_env "built3 \<lparr> csv_file := None \<rparr>"] f
  have "snd (build_index_from_csv numpy_env (built3 \<lparr> csv_file := None \<rparr>)) =
       built3 \<lparr> csv_file := None \<rparr>"
    by blast
  with f g show ?thesis by blast
qed

text \<open>
  C9 as stated fails when the ids file cannot be written. The process has published the
  index of \<open>old_catalog\<close>; a rebuild over \<open>catalog3\<close> embeds three records, \<open>np.save\<close>
  replaces the matrix file, \<open>write_text\<close> raises and the build fails: the globals and
  the ids file are the old ones, the persisted matrix is the new one.
\<close>

theorem failed_write_replaces_matrix_counterexample:
  "fst (build_index_from_csv ids_unwritable_env rebuild_state) = Inl (OSError 13)
   \<and> index_file rebuild_state = Some (NpyArray [[0, 1]])
   \<and> index_file (snd (build_index_from_csv ids_unwritable_env rebuild_state)) =
       Some (NpyArray [[1, 0], [1, 0], [0, 1]])
   \<and> ids_file (snd (build_index_from_csv ids_unwritable_env rebuild_state)) =
       Some (JsonItems [''Z''])
   \<and> embeddings (snd (build_index_from_csv ids_unwritable_env rebuild_state)) = Some [[0, 1]]
   \<and> ids (snd (build_index_from_csv ids_unwritable_env rebuild_state)) = [''Z'']
   \<and> snd (build_index_from_csv ids_unwritable_env rebuild_state) \<noteq> rebuild_state"
proof -
  have m: "index_file (snd (build_index_from_csv ids_unwritable_env rebuild_state)) =
       Some (NpyArray [[1, 0], [1, 0], [0, 1]])"
    by (simp add: numpy_build_eval csv_eval)
  have o: "index_file rebuild_state = Some (NpyArray [[0, 1]])"
    by (simp add: rebuild_state_def)
  have "index_file (snd (build_index_from_csv ids_unwritable_env rebuild_state))
      \<noteq> index_file rebuild_state"
    unfolding m o by simp
  then have d: "snd (build_index_from_csv ids_unwritable_env rebuild_state) \<noteq> rebuild_state"
    by auto
  have r: "fst (build_index_from_csv ids_unwritable_env rebuild_state) = Inl (OSError 13)"
    "ids_file (snd (build_index_from_csv ids_unwritable_env rebuild_state)) =
       Some (JsonItems [''Z''])"
    "embeddings (snd (build_index_from_csv ids_unwritable_env rebuild_state)) = Some [[0, 1]]"
    "ids (snd (build_index_from_csv ids_unwritable_env rebuild_state)) = [''Z'']"
    by (simp_all add: numpy_build_eval csv_eval)
  from r m o d show ?thesis by simp
qed



subsection \<open>C8: the index invariant\<close>




subsection \<open>C4: loading the persisted index\<close>

text \<open>
  C4, as the code has it. Startup does not compare the matrix with the id list: when
  both files exist and can be read, the matrix and the ids are published as they are,
  whatever their lengths, and nothing fails. (The table is loaded from the catalog
  best-effort beforehand.)
\<close>

theorem on_startup_loads_unchecked:
  assumes "index_file s = Some (NpyArray M)" and "ids_file s = Some (JsonItems idl)"
  shows "on_startup e s =
           s \<lparr> df := (case load_csv_filtered e (csv_file s) of Inl _ \<Rightarrow> None | Inr d \<Rightarrow> Some d),
               embeddings := Some M, ids := idl \<rparr>"
  using assms by (simp add: on_startup_def)

text \<open>The theorem at matching files: three rows, three ids.\<close>

theorem on_startup_loads_unchecked_witness:
  "index_file built3 = Some (NpyArray [[1, 0], [1, 0], [0, 1]])
   \<and> ids_file built3 = Some (JsonItems [''A'', ''B'', ''C''])
   \<and> embeddings (on_startup demo_env built3) = Some [[1, 0], [1, 0], [0, 1]]
   \<and> ids (on_startup demo_env built3) = [''A'', ''B'', ''C'']"
proof -
  have h1: "index_file built3 = Some (NpyArray [[1, 0], [1, 0], [0, 1]])"
    by (simp add: built3_def)
  have h2: "ids_file built3 = Some (JsonItems [''A'', ''B'', ''C''])"
    by (simp add: built3_def)
  from on_startup_loads_unchecked[OF h1 h2, of demo_env] h1 h2
  show ?thesis by simp
qed

text \<open>
  C4 as stated fails on a matrix of two rows stored beside a list of one id: startup
  publishes both, two rows and one id, and raises nothing.
\<close>

theorem on_startup_mismatch_counterexample:
  "embeddings (on_startup demo_env stale_files) = Some [[1, 0], [0, 1]]
   \<and> ids (on_startup demo_env stale_files) = [''A'']
   \<and> length [''A''] \<noteq> length [[1, 0], [0, 1 :: real]]"
  by (simp add: build_eval load_csv_filtered_def)

subsection \<open>C2: how a build publishes\<close>

text \<open>
  C2, as the code has it. A build publishes by three assignments in a row, \<open>df\<close>, then
  \<open>embeddings\<close>, then \<open>ids\<close>, with no lock around them. The globals go through four
  views: the old triple; the new table with the old matrix and ids; the new table and
  matrix with the old ids; the new triple. A successful build ends in the last one. Only
  a reader that finds the first or the last sees one build's triple.
\<close>

theorem publish_in_three_steps:
  "view (state_after 0 (d, M, idl) s) = (df s, embeddings s, ids s)
   \<and> view (state_after 1 (d, M, idl) s) = (Some d, embeddings s, ids s)
   \<and> view (state_after 2 (d, M, idl) s) = (Some d, Some M, ids s)
   \<and> view (state_after 3 (d, M, idl) s) = (Some d, Some M, idl)
   \<and> (\<forall>i s'. build_index_from_csv e s0 = (Inr i, s') \<longrightarrow>
         (\<exists>d' M' idl'.
             s' = state_after 3 (d', M', idl')
                    (s0 \<lparr> index_file := Some (NpyArray M'), ids_file := Some (JsonItems idl') \<rparr>)
           \<and> view s' = (Some d', Some M', idl')))"
proof -
  have steps: "view (state_after 0 (d, M, idl) s) = (df s, embeddings s, ids s)"
    "view (state_after 1 (d, M, idl) s) = (Some d, embeddings s, ids s)"
    "view (state_after 2 (d, M, idl) s) = (Some d, Some M, ids s)"
    "view (state_after 3 (d, M, idl) s) = (Some d, Some M, idl)"
    by (simp_all add: view_def state_after_def publish_sequence_def assign_global_def
          numeral_2_eq_2 numeral_3_eq_3)
  have b: "\<exists>d' M' idl'.
             s' = state_after 3 (d', M', idl')
                    (s0 \<lparr> index_file := Some (NpyArray M'), ids_file := Some (JsonItems idl') \<rparr>)
           \<and> view s' = (Some d', Some M', idl')"
    if "build_index_from_csv e s0 = (Inr i, s')" for i s'
    using that
    by (auto simp: build_cases state_after_3 view_def
             split: sum.splits if_splits write_outcome.splits)
  from steps b show ?thesis by blast
qed

text \<open>The theorem at the build of the catalog with one bad image.\<close>

theorem publish_in_three_steps_witness:
  "\<exists>i s'. build_index_from_csv demo_env (with_csv catalog_bad) = (Inr i, s')
     \<and> (\<exists>d' M' idl'.
           s' = state_after 3 (d', M', idl')
                  (with_csv catalog_bad
                     \<lparr> index_file := Some (NpyArray M'), ids_file := Some (JsonItems idl') \<rparr>)
         \<and> view s' = (Some d', Some M', idl'))"
proof -
  have b: "build_index_from_csv demo_env (with_csv catalog_bad) =
      (Inr \<lparr> info_count = 2, info_skipped = 1 \<rparr>,
       snd (build_index_from_csv demo_env (with_csv catalog_bad)))"
    by (simp add: build_eval csv_eval)
  from publish_in_three_steps[of _ _ _ _ demo_env "with_csv catalog_bad"] b
  show ?thesis by blast
qed

text \<open>
  C2 as stated fails between the assignments. While a build replaces the index of
  \<open>old_catalog\<close> by that of \<open>catalog3\<close>, after lines 329 and 330 and before line 331 the
  globals hold the new table and the new matrix with the old ids: neither the old triple
  nor the new one.
\<close>

theorem publish_mixed_view_counterexample:
  "view (state_after 2 (catalog3, [[1, 0], [1, 0], [0, 1]], [''A'', ''B'', ''C'']) old_index) =
     (Some catalog3, Some [[1, 0], [1, 0], [0, 1]], [''Z''])
   \<and> view (state_after 2 (catalog3, [[1, 0], [1, 0], [0, 1]], [''A'', ''B'', ''C'']) old_index)
       \<noteq> view old_index
   \<and> view (state_after 2 (catalog3, [[1, 0], [1, 0], [0, 1]], [''A'', ''B'', ''C'']) old_index)
       \<noteq> view (publish (catalog3, [[1, 0], [1, 0], [0, 1]], [''A'', ''B'', ''C'']) old_index)"
  by (simp add: build_eval)

section \<open>Properties of the remote fetch\<close>

lemma try_profiles_all_fail:
  "(\<forall>j<length hss. \<exists>x. read_response (answer (i + j)) = Inl x) \<Longrightarrow>
   try_profiles answer host a i hss last_exc trace =
     (None,
      (if hss = [] then last_exc
       else Some (projl (read_response (answer (i + length hss - 1))))),
      trace @ map (\<lambda>hs. Get a (with_referer host hs)) hss)"
proof (induction hss arbitrary: i last_exc trace)
  case Nil
  show ?case by simp
next
  case (Cons hs rest)
  from Cons.prems obtain x where x: "read_response (answer i) = Inl x"
    by fastforce
  have "\<forall>j<length rest. \<exists>x. read_response (answer (Suc i + j)) = Inl x"
    using Cons.prems by fastforce
  from Cons.IH[OF this] x show ?case
    by (cases rest) (simp_all add: Let_def)
qed

lemma try_profiles_first_success:
  "k < length hss \<Longrightarrow> read_response (answer (i + k)) = Inr content \<Longrightarrow>
   (\<forall>j<k. \<exists>x. read_response (answer (i + j)) = Inl x) \<Longrightarrow>
   \<exists>l. try_profiles answer host a i hss last_exc trace =
     (Some content, l, trace @ map (\<lambda>hs. Get a (with_referer host hs)) (take (Suc k) hss))"
proof (induction hss arbitrary: i k last_exc trace)
  case Nil
  then show ?case by simp
next
  case (Cons hs rest)
  show ?case
  proof (cases k)
    case 0
    with Cons.prems show ?thesis by (simp add: Let_def)
  next
    case (Suc k')
    from Cons.prems Suc obtain x where x: "read_response (answer i) = Inl x"
      by fastforce
    have 1: "k' < length rest" using Cons.prems Suc by simp
    have 2: "read_response (answer (Suc i + k')) = Inr content" using Cons.prems Suc by simp
    have 3: "\<forall>j<k'. \<exists>x. read_response (answer (Suc i + j)) = Inl x"
      using Cons.prems(3) Suc by fastforce
    from Cons.IH[OF 1 2 3, of "Some x" "trace @ [Get a (with_referer host hs)]"]
    obtain l where "try_profiles answer host a (Suc i) rest (Some x)
        (trace @ [Get a (with_referer host hs)]) =
       (Some content, l, (trace @ [Get a (with_referer host hs)]) @
          map (\<lambda>hs. Get a (with_referer host hs)) (take (Suc k') rest))"
      by blast
    with x Suc show ?thesis
      by (simp add: Let_def)
  qed
qed

lemma hc_len: "length header_candidates = 3"
  by (simp add: header_candidates_def)

text \<open>Dropping the empty chunks does not change the joined body.\<close>

lemma concat_nonempty_chunks: "concat (filter (\<lambda>c. c \<noteq> []) chunks) = concat chunks"
  by (induction chunks) auto

lemma response_error_Some: "response_error r = Some x \<Longrightarrow> read_response r = Inl x"
  by (auto simp: response_error_def read_response_def concat_nonempty_chunks Let_def
           split: http_response.splits if_splits)

lemma response_error_fails: "response_error r \<noteq> None \<Longrightarrow> \<exists>x. read_response r = Inl x"
  using response_error_Some by blast

lemma read_response_success:
  "\<not> (400 \<le> st \<and> st < 600) \<Longrightarrow> concat chunks \<noteq> [] \<Longrightarrow>
   read_response (Status st chunks) = Inr (concat chunks)"
  by (simp add: read_response_def concat_nonempty_chunks Let_def)

lemma attempt_all_fail:
  assumes "attempt_fails net a"
  shows "try_profiles (net a) host a 0 header_candidates last_exc trace =
     (None, Some (projl (read_response (net a 2))), trace @ gets host a (length header_candidates))"
proof -
  have ne: "header_candidates \<noteq> []" by (simp add: header_candidates_def)
  from assms have "\<forall>j<length header_candidates. \<exists>x. read_response (net a (0 + j)) = Inl x"
    by (simp add: attempt_fails_def response_error_fails)
  from try_profiles_all_fail[OF this, of host a last_exc trace] ne show ?thesis
    by (simp add: gets_def hc_len)
qed

lemma attempts_all_fail:
  "(\<forall>a\<in>set as. attempt_fails net a) \<Longrightarrow>
   attempts net host as last_exc trace =
     (None,
      (if as = [] then last_exc else Some (projl (read_response (net (last as) 2)))),
      trace @ concat (map (\<lambda>a. gets host a (length header_candidates) @ [Sleep (backoff a)]) as))"
proof (induction as arbitrary: last_exc trace)
  case Nil
  show ?case by simp
next
  case (Cons a as)
  then show ?case
    by (simp add: attempt_all_fail backoff_def)
qed

lemma attempts_first_success:
  assumes "\<forall>a'\<in>set pre. attempt_fails net a'"
    and "i < length header_candidates"
    and "read_response (net a i) = Inr content"
    and "\<forall>j<i. \<exists>x. read_response (net a j) = Inl x"
  shows "\<exists>l. attempts net host (pre @ a # post) last_exc trace =
     (Some content, l,
      trace @ concat (map (\<lambda>a. gets host a (length header_candidates) @ [Sleep (backoff a)]) pre)
        @ gets host a (Suc i))"
  using assms(1)
proof (induction pre arbitrary: last_exc trace)
  case Nil
  from try_profiles_first_success[of i header_candidates "net a" 0 content host a last_exc trace]
    assms(2-4)
  obtain l where "try_profiles (net a) host a 0 header_candidates last_exc trace =
     (Some content, l, trace @ gets host a (Suc i))"
    by (auto simp: gets_def)
  then show ?case by simp
next
  case (Cons b pre)
  from Cons.prems have b: "attempt_fails net b" and pre: "\<forall>a'\<in>set pre. attempt_fails net a'"
    by simp_all
  from Cons.IH[OF pre, of "Some (projl (read_response (net b 2)))"
      "trace @ gets host b (length header_candidates) @ [Sleep (backoff b)]"]
  obtain l where "attempts net host (pre @ a # post) (Some (projl (read_response (net b 2))))
      (trace @ gets host b (length header_candidates) @ [Sleep (backoff b)]) =
     (Some content, l,
      (trace @ gets host b (length header_candidates) @ [Sleep (backoff b)]) @
        concat (map (\<lambda>a. gets host a (length header_candidates) @ [Sleep (backoff a)]) pre)
        @ gets host a (Suc i))"
    by blast
  with b show ?case
    by (simp add: attempt_all_fail backoff_def)
qed

lemma upt_split:
  assumes "1 \<le> a" and "a \<le> max_attempts"
  shows "[1..<max_attempts + 1] = [1..<a] @ a # [Suc a..<max_attempts + 1]"
proof -
  have "[1..<max_attempts + 1] = [1..<a] @ [a..<max_attempts + 1]"
    using assms by (metis le_add_diff_inverse le_SucI Suc_eq_plus1 upt_add_eq_append)
  moreover have "[a..<max_attempts + 1] = a # [Suc a..<max_attempts + 1]"
    using assms by (simp add: upt_conv_Cons)
  ultimately show ?thesis by simp
qed


lemma failed_attempts_pred: "1 \<le> a \<Longrightarrow> failed_attempts host (a - 1) =
   concat (map (\<lambda>a. gets host a (length header_candidates) @ [Sleep (backoff a)]) [1..<a])"
  by (simp add: failed_attempts_def)

subsection \<open>C7: the retry protocol\<close>

text \<open>
  C7, as the code has it. A request succeeds when its status lies outside 400-599 and
  its body, the chunks joined, is not empty; it fails when the transport raises, the
  status lies in 400-599 or the joined body is empty. Attempts 1 to \<open>max_attempts\<close>
  each try the header profiles in order. If the first request that succeeds is profile
  \<open>i\<close> of attempt \<open>a\<close>, the fetch returns its joined body, and what it has done is
  exactly: all profiles of each earlier attempt, each attempt followed by a sleep of
  \<open>0.5 * 2^(attempt-1)\<close>, then profiles 0 to \<open>i\<close> of attempt \<open>a\<close>; no later profile or
  attempt is requested. If every profile fails in every attempt, the three attempts
  and their sleeps (0.5, 1, 2) are followed by one \<open>urlopen\<close> request when the host of
  the URL can be parsed, and by nothing when it cannot; a non-empty body of that
  request is returned, and in every other case the error raised is the one of the last
  profile of the last attempt, not the one of the \<open>urlopen\<close> request.
\<close>

theorem fetch_protocol:
  "(\<forall>a i st chunks.
       1 \<le> a \<and> a \<le> max_attempts \<and> i < length header_candidates
       \<and> (\<forall>a'. 1 \<le> a' \<and> a' < a \<longrightarrow> attempt_fails net a')
       \<and> (\<forall>j<i. response_error (net a j) \<noteq> None)
       \<and> net a i = Status st chunks \<and> \<not> (400 \<le> st \<and> st < 600) \<and> concat chunks \<noteq> []
       \<longrightarrow> fetch_image_bytes_with_headers net fallback host =
            (Inr (concat chunks), failed_attempts host (a - 1) @ gets host a (Suc i)))
   \<and> ((\<forall>a. 1 \<le> a \<and> a \<le> max_attempts \<longrightarrow> attempt_fails net a) \<longrightarrow>
        (\<exists>last. response_error (net max_attempts 2) = Some last
         \<and> fetch_image_bytes_with_headers net fallback host =
            (case host of
               Inl _ \<Rightarrow> (Inl last, failed_attempts host max_attempts)
             | Inr h \<Rightarrow>
                 ((case fallback of
                     Inl _ \<Rightarrow> Inl last
                   | Inr content \<Rightarrow> if content = [] then Inl last else Inr content),
                  failed_attempts host max_attempts @ [UrlOpen (urlopen_headers h)]))))
   \<and> map backoff [1..<max_attempts + 1] = [1 / 2, 1, 2]"
proof (intro conjI allI impI)
  fix a i st chunks
  assume h: "1 \<le> a \<and> a \<le> max_attempts \<and> i < length header_candidates
       \<and> (\<forall>a'. 1 \<le> a' \<and> a' < a \<longrightarrow> attempt_fails net a')
       \<and> (\<forall>j<i. response_error (net a j) \<noteq> None)
       \<and> net a i = Status st chunks \<and> \<not> (400 \<le> st \<and> st < 600) \<and> concat chunks \<noteq> []"
  then have split: "[1..<max_attempts + 1] = [1..<a] @ a # [Suc a..<max_attempts + 1]"
    using upt_split[of a] by blast
  have pre: "\<forall>a'\<in>set [1..<a]. attempt_fails net a'" using h by simp
  have i: "i < length header_candidates" using h by simp
  have ok: "read_response (net a i) = Inr (concat chunks)"
    using h read_response_success[of st chunks] by simp
  have before: "\<forall>j<i. \<exists>x. read_response (net a j) = Inl x"
    using h response_error_fails by blast
  from attempts_first_success[OF pre i ok before, of host "[Suc a..<max_attempts + 1]" None "[]"]
  obtain l where att: "attempts net host [1..<max_attempts + 1] None [] =
     (Some (concat chunks), l,
      concat (map (\<lambda>a. gets host a (length header_candidates) @ [Sleep (backoff a)]) [1..<a])
        @ gets host a (Suc i))"
    unfolding split by auto
  have a1: "1 \<le> a" using h by simp
  show "fetch_image_bytes_with_headers net fallback host =
            (Inr (concat chunks), failed_attempts host (a - 1) @ gets host a (Suc i))"
    unfolding fetch_image_bytes_with_headers_def att failed_attempts_pred[OF a1] by simp
next
  assume h: "\<forall>a. 1 \<le> a \<and> a \<le> max_attempts \<longrightarrow> attempt_fails net a"
  then have all: "\<forall>a\<in>set [1..<max_attempts + 1]. attempt_fails net a" by auto
  have l3: "last [1..<max_attempts + 1] = max_attempts" "[1..<max_attempts + 1] \<noteq> []"
    by (simp_all add: max_attempts_def)
  from h have "attempt_fails net max_attempts" by (simp add: max_attempts_def)
  then have "response_error (net max_attempts 2) \<noteq> None"
    unfolding attempt_fails_def hc_len by (elim allE[of _ 2]) simp
  then obtain x where x: "response_error (net max_attempts 2) = Some x" by blast
  then have rx: "read_response (net max_attempts 2) = Inl x" by (rule response_error_Some)
  have att: "attempts net host [1..<max_attempts + 1] None [] =
      (None, Some x, failed_attempts host max_attempts)"
    using attempts_all_fail[OF all, of host None "[]"] l3 rx
    by (simp add: failed_attempts_def)
  show "\<exists>last. response_error (net max_attempts 2) = Some last
         \<and> fetch_image_bytes_with_headers net fallback host =
            (case host of
               Inl _ \<Rightarrow> (Inl last, failed_attempts host max_attempts)
             | Inr h \<Rightarrow>
                 ((case fallback of
                     Inl _ \<Rightarrow> Inl last
                   | Inr content \<Rightarrow> if content = [] then Inl last else Inr content),
                  failed_attempts host max_attempts @ [UrlOpen (urlopen_headers h)]))"
    using x att
    by (auto simp: fetch_image_bytes_with_headers_def urlopen_headers_def Let_def
             split: sum.splits)
next
  show "map backoff [1..<max_attempts + 1] = [1 / 2, 1, 2]"
    by (simp add: max_attempts_def backoff_def upt_conv_Cons)
qed

text \<open>
  The theorem at three servers. The first refuses profile 0 of attempt 1 with 403,
  answers profile 1 with status 200 and an empty body, which is a failure, breaks the
  connection of profile 2, and after the sleep of 0.5 serves profile 0 of attempt 2:
  the joined body is returned after four requests and one sleep. The second answers
  every request with 200 and an empty body: nine failures, then the fallback's body if
  it has one, else the empty-content error of the ninth request.
\<close>

theorem fetch_protocol_witness:
  "fetch_image_bytes_with_headers picky_net (Inl (Ext 9)) (Inr ''cdn.example.com'') =
     (Inr ''PNGDATA'',
      failed_attempts (Inr ''cdn.example.com'') 1 @ gets (Inr ''cdn.example.com'') 2 1)
   \<and> picky_net 1 1 = Status 200 [[], []]
   \<and> response_error (picky_net 1 1) = Some EmptyContent
   \<and> length (failed_attempts (Inr ''cdn.example.com'') 1 @ gets (Inr ''cdn.example.com'') 2 1) = 5
   \<and> fetch_image_bytes_with_headers hollow_net (Inr ''FALLBACK'') (Inr ''cdn.example.com'') =
       (Inr ''FALLBACK'',
        failed_attempts (Inr ''cdn.example.com'') max_attempts
          @ [UrlOpen (urlopen_headers ''cdn.example.com'')])
   \<and> fetch_image_bytes_with_headers hollow_net (Inr []) (Inr ''cdn.example.com'') =
       (Inl EmptyContent,
        failed_attempts (Inr ''cdn.example.com'') max_attempts
          @ [UrlOpen (urlopen_headers ''cdn.example.com'')])"
proof -
  have p0: "\<forall>j<3. response_error (picky_net 1 j) \<noteq> None"
    by (auto simp: picky_net_def response_error_def)
  have p1: "attempt_fails picky_net 1"
    using p0 by (simp add: attempt_fails_def hc_len)
  have pe: "picky_net 1 1 = Status 200 [[], []]"
    "response_error (picky_net 1 1) = Some EmptyContent"
    by (simp_all add: picky_net_def response_error_def)
  have p2: "picky_net 2 0 = Status 200 [''PNG'', [], ''DATA'']"
    "\<not> (400 \<le> (200::nat) \<and> (200::nat) < 600)" "concat [''PNG'', [], ''DATA''] \<noteq> []"
    by (simp_all add: picky_net_def)
  have pa: "(1::nat) \<le> 2 \<and> 2 \<le> max_attempts \<and> 0 < length header_candidates
      \<and> (\<forall>a'. 1 \<le> a' \<and> a' < 2 \<longrightarrow> attempt_fails picky_net a')
      \<and> (\<forall>j<0. response_error (picky_net 2 j) \<noteq> None)"
  proof -
    have "a' = 1" if "1 \<le> a' \<and> a' < 2" for a' :: nat using that by arith
    with p1 have "\<forall>a'. 1 \<le> a' \<and> a' < 2 \<longrightarrow> attempt_fails picky_net a'" by blast
    then show ?thesis by (simp add: max_attempts_def hc_len)
  qed
  from fetch_protocol[of picky_net "Inl (Ext 9)" "Inr ''cdn.example.com''"] pa p2
  have "fetch_image_bytes_with_headers picky_net (Inl (Ext 9)) (Inr ''cdn.example.com'') =
     (Inr (concat [''PNG'', [], ''DATA'']),
      failed_attempts (Inr ''cdn.example.com'') (2 - 1) @ gets (Inr ''cdn.example.com'') 2 (Suc 0))"
    by blast
  then have a: "fetch_image_bytes_with_headers picky_net (Inl (Ext 9)) (Inr ''cdn.example.com'') =
     (Inr ''PNGDATA'',
      failed_attempts (Inr ''cdn.example.com'') 1 @ gets (Inr ''cdn.example.com'') 2 1)"
    by simp
  have n: "length (failed_attempts (Inr ''cdn.example.com'') 1
      @ gets (Inr ''cdn.example.com'') 2 1) = 5"
    by (simp add: failed_attempts_def gets_def hc_len)
  have hollow: "\<forall>a. 1 \<le> a \<and> a \<le> max_attempts \<longrightarrow> attempt_fails hollow_net a"
    by (simp add: attempt_fails_def hollow_net_def response_error_def)
  have h9: "response_error (hollow_net max_attempts 2) = Some EmptyContent"
    by (simp add: hollow_net_def response_error_def)
  from fetch_protocol[of hollow_net "Inr ''FALLBACK''" "Inr ''cdn.example.com''"] hollow h9
  have b: "fetch_image_bytes_with_headers hollow_net (Inr ''FALLBACK'') (Inr ''cdn.example.com'') =
       (Inr ''FALLBACK'',
        failed_attempts (Inr ''cdn.example.com'') max_attempts
          @ [UrlOpen (urlopen_headers ''cdn.example.com'')])"
    by auto
  from fetch_protocol[of hollow_net "Inr []" "Inr ''cdn.example.com''"] hollow h9
  have c: "fetch_image_bytes_with_headers hollow_net (Inr []) (Inr ''cdn.example.com'') =
       (Inl EmptyContent,
        failed_attempts (Inr ''cdn.example.com'') max_attempts
          @ [UrlOpen (urlopen_headers ''cdn.example.com'')])"
    by auto
  from a pe n b c show ?thesis by blast
qed

text \<open>
  C7 as stated fails in its last part, twice. At the server that fails nine times, the
  ninth with 503, and whose \<open>urlopen\<close> request then fails with another error (number
  9): the error raised is the 503 of the ninth request, not the more recent one of the
  fallback. At a URL whose host cannot be parsed (every request raises, and so does
  \<open>urlparse\<close>, with number 7): after the three attempts and their sleeps no \<open>urlopen\<close>
  request is made at all; the trace ends with the sleep of 2.
\<close>

theorem fetch_fallback_counterexample:
  "fetch_image_bytes_with_headers dead_net (Inl (Ext 9)) (Inr ''cdn.example.com'') =
     (Inl (HTTPError 503),
      failed_attempts (Inr ''cdn.example.com'') max_attempts
        @ [UrlOpen (urlopen_headers ''cdn.example.com'')])
   \<and> HTTPError 503 \<noteq> Ext 9
   \<and> fetch_image_bytes_with_headers invalid_url_net (Inr ''FALLBACK'') (Inl (Ext 7)) =
       (Inl (Ext 22), failed_attempts (Inl (Ext 7)) max_attempts)
   \<and> last (failed_attempts (Inl (Ext 7)) max_attempts) = Sleep 2
   \<and> length (failed_attempts (Inl (Ext 7)) max_attempts) = 12"
proof -
  have a: "fetch_image_bytes_with_headers dead_net (Inl (Ext 9)) (Inr ''cdn.example.com'') =
     (Inl (HTTPError 503),
      failed_attempts (Inr ''cdn.example.com'') max_attempts
        @ [UrlOpen (urlopen_headers ''cdn.example.com'')])"
    by (simp add: fetch_image_bytes_with_headers_def max_attempts_def upt_conv_Cons
        header_candidates_def read_response_def dead_net_def failed_attempts_def gets_def
        backoff_def urlopen_headers_def Let_def)
  have b: "fetch_image_bytes_with_headers invalid_url_net (Inr ''FALLBACK'') (Inl (Ext 7)) =
       (Inl (Ext 22), failed_attempts (Inl (Ext 7)) max_attempts)"
    by (simp add: fetch_image_bytes_with_headers_def max_attempts_def upt_conv_Cons
        header_candidates_def read_response_def invalid_url_net_def failed_attempts_def
        gets_def backoff_def Let_def)
  have c: "last (failed_attempts (Inl (Ext 7)) max_attempts) = Sleep 2"
    "length (failed_attempts (Inl (Ext 7)) max_attempts) = 12"
    by (simp_all add: failed_attempts_def max_attempts_def upt_conv_Cons hc_len gets_def
        backoff_def)
  from a b c show ?thesis by simp
qed

end
